theory Spec2Isabelle
  imports Main "HOL-Library.Word" "HOL-Library.Signed_Division"
begin

unbundle bit_operations_syntax

section \<open>DRM Video Endpoint driver (drivers/gpu/drm/xlnx/drm_video_endpoint.c)\<close>

text \<open>
  A shallow embedding of the register helpers, the interrupt handler, the SDI mode
  selection, the connector property accessors, the encoder mode-set and the
  commit/disable sequences of the driver.

  C \<^verbatim>\<open>int\<close> and \<^verbatim>\<open>u32\<close> values are both 32-bit words: addition, subtraction,
  multiplication and equality agree on the two readings, a signed value is read with
  \<^const>\<open>sint\<close>, and the operations that differ (division, ordering) are written out
  for the reading the source uses. Every call that leaves the file (register access,
  the timing controller of xlnx_sdi_timing.h, the bridge of xlnx_bridge.h, the
  rate-limited log) is an event of a trace, in program order.
\<close>

subsection \<open>Machine integers\<close>

type_synonym u32 = "32 word"
type_synonym s32 = "32 word"
type_synonym u64 = "64 word"

text \<open>C division of two \<^verbatim>\<open>int\<close>s: the quotient is truncated towards zero.\<close>

definition int_div :: "s32 \<Rightarrow> s32 \<Rightarrow> s32" where
  "int_div a b = word_of_int (sint a sdiv sint b)"

subsection \<open>Register offsets and masks\<close>

abbreviation (input) RREG_IRQ_STATUS :: nat where "RREG_IRQ_STATUS \<equiv> 0x04"

abbreviation (input) WREG_CORE_ENABLE :: nat where "WREG_CORE_ENABLE \<equiv> 0x00"
abbreviation (input) WREG_AXI_S_VID_ENABLE :: nat where "WREG_AXI_S_VID_ENABLE \<equiv> 0x04"
abbreviation (input) WREG_IRQ_ENABLE :: nat where "WREG_IRQ_ENABLE \<equiv> 0x08"
abbreviation (input) WREG_IRQ_CLEAR :: nat where "WREG_IRQ_CLEAR \<equiv> 0x0C"
abbreviation (input) WREG_IRQ_MASK :: nat where "WREG_IRQ_MASK \<equiv> 0x10"
abbreviation (input) WREG_SDI_BRIDGE_ENABLE :: nat where "WREG_SDI_BRIDGE_ENABLE \<equiv> 0x14"
abbreviation (input) WREG_SDI_MODE :: nat where "WREG_SDI_MODE \<equiv> 0x18"
abbreviation (input) WREG_SDI_IS_FRAC :: nat where "WREG_SDI_IS_FRAC \<equiv> 0x1C"

abbreviation (input) AXI_S_VID_LOCKED_INTR :: u32 where "AXI_S_VID_LOCKED_INTR \<equiv> 1"
abbreviation (input) AXI_S_VID_OVERFLOW_INTR :: u32 where "AXI_S_VID_OVERFLOW_INTR \<equiv> 2"
abbreviation (input) AXI_S_VID_UNDERFLOW_INTR :: u32 where "AXI_S_VID_UNDERFLOW_INTR \<equiv> 4"
abbreviation (input) IRQ_EN_MASK :: u32 where
  "IRQ_EN_MASK \<equiv> AXI_S_VID_OVERFLOW_INTR OR AXI_S_VID_UNDERFLOW_INTR"

abbreviation (input) PIXELS_PER_CLK :: "32 word" where "PIXELS_PER_CLK \<equiv> 2"

abbreviation (input) SDI_MODE_HD :: u32 where "SDI_MODE_HD \<equiv> 0"
abbreviation (input) SDI_MODE_SD :: u32 where "SDI_MODE_SD \<equiv> 1"
abbreviation (input) SDI_MODE_3GA :: u32 where "SDI_MODE_3GA \<equiv> 2"
abbreviation (input) SDI_MODE_3GB :: u32 where "SDI_MODE_3GB \<equiv> 3"
abbreviation (input) SDI_MODE_6G :: u32 where "SDI_MODE_6G \<equiv> 4"
abbreviation (input) SDI_MODE_12G :: u32 where "SDI_MODE_12G \<equiv> 5"

text \<open>\<^verbatim>\<open>EINVAL\<close> of errno-base.h; the functions return its negation.\<close>

abbreviation (input) EINVAL :: int where "EINVAL \<equiv> 22"

subsection \<open>Data\<close>

text \<open>
  \<^verbatim>\<open>struct drm_display_mode\<close>, from \<^verbatim>\<open>clock\<close> to \<^verbatim>\<open>flags\<close> in the order the kernel
  header declares them (twelve 4-byte members, contiguous), and \<^verbatim>\<open>vrefresh\<close>, which
  lies after them. The members before \<^verbatim>\<open>clock\<close> and the others after \<^verbatim>\<open>flags\<close> are
  not read or written by this driver.
\<close>

record drm_display_mode =
  clock :: s32
  hdisplay :: s32
  hsync_start :: s32
  hsync_end :: s32
  htotal :: s32
  hskew :: s32
  vdisplay :: s32
  vsync_start :: s32
  vsync_end :: s32
  vtotal :: s32
  vscan :: s32
  flags :: u32
  vrefresh :: s32

abbreviation (input) DRM_MODE_FLAG_PHSYNC :: u32 where "DRM_MODE_FLAG_PHSYNC \<equiv> 1"
abbreviation (input) DRM_MODE_FLAG_PVSYNC :: u32 where "DRM_MODE_FLAG_PVSYNC \<equiv> 4"
abbreviation (input) DRM_MODE_FLAG_INTERLACE :: u32 where "DRM_MODE_FLAG_INTERLACE \<equiv> 16"

text \<open>\<^verbatim>\<open>struct videomode\<close> of video/videomode.h, with the display flags as their bit mask.\<close>

record videomode =
  pixelclock :: u64
  hactive :: u32
  hfront_porch :: u32
  hback_porch :: u32
  hsync_len :: u32
  vactive :: u32
  vfront_porch :: u32
  vback_porch :: u32
  vsync_len :: u32
  vm_flags :: u32

abbreviation (input) DISPLAY_FLAGS_HSYNC_LOW :: u32 where "DISPLAY_FLAGS_HSYNC_LOW \<equiv> 1"
abbreviation (input) DISPLAY_FLAGS_VSYNC_LOW :: u32 where "DISPLAY_FLAGS_VSYNC_LOW \<equiv> 4"
abbreviation (input) DISPLAY_FLAGS_INTERLACED :: u32 where "DISPLAY_FLAGS_INTERLACED \<equiv> 256"

text \<open>
  Pointers are addresses, 0 the null pointer. \<^verbatim>\<open>struct drm_vid_ep\<close> without the
  members no modelled function touches (encoder, connector, dev, base, the clocks).
\<close>

type_synonym ptr = nat

record drm_vid_ep =
  sdi_mode :: ptr
  sdi_mod_prop_val :: u32
  sdi_data_strm :: ptr
  sdi_data_strm_prop_val :: u32
  sdi_420_in :: ptr
  sdi_420_in_val :: bool
  sdi_420_out :: ptr
  sdi_420_out_val :: bool
  is_frac_prop :: ptr
  is_frac_prop_val :: bool
  bridge :: ptr
  height_out :: ptr
  height_out_prop_val :: u32
  width_out :: ptr
  width_out_prop_val :: u32
  in_fmt :: ptr
  in_fmt_prop_val :: u32
  out_fmt :: ptr
  out_fmt_prop_val :: u32
  video_mode :: drm_display_mode

text \<open>What a function does outside its own variables, one event per call.\<close>

datatype io_event =
    Readl nat
  | Writel nat u32
  | Dev_err_ratelimited string
  | Stc_reset
  | Stc_sig videomode
  | Stc_enable
  | Stc_disable
  | Stc_fsync_enable
  | Stc_fsync_disable
  | Bridge_set_input ptr u32 u32 u32
  | Bridge_set_output ptr u32 u32 u32
  | Bridge_enable ptr
  | Bridge_disable ptr

datatype irqreturn = IRQ_NONE | IRQ_HANDLED | IRQ_WAKE_THREAD

subsection \<open>Register helpers\<close>

definition drm_vid_ep_writel :: "nat \<Rightarrow> u32 \<Rightarrow> io_event list" where
  "drm_vid_ep_writel offset val = [Writel offset val]"

definition drm_vid_ep_enable_sdi_bridge :: "io_event list" where
  "drm_vid_ep_enable_sdi_bridge = drm_vid_ep_writel WREG_SDI_BRIDGE_ENABLE 1"

definition drm_vid_ep_disable_sdi_bridge :: "io_event list" where
  "drm_vid_ep_disable_sdi_bridge = drm_vid_ep_writel WREG_SDI_BRIDGE_ENABLE 0"

definition drm_vid_ep_enable_axi4s :: "io_event list" where
  "drm_vid_ep_enable_axi4s = drm_vid_ep_writel WREG_AXI_S_VID_ENABLE 1"

definition drm_vid_ep_disable_axi4s :: "io_event list" where
  "drm_vid_ep_disable_axi4s = drm_vid_ep_writel WREG_AXI_S_VID_ENABLE 0"

definition drm_vid_ep_set_display_enable :: "io_event list" where
  "drm_vid_ep_set_display_enable = drm_vid_ep_writel WREG_CORE_ENABLE 1"

definition drm_vid_ep_set_display_disable :: "io_event list" where
  "drm_vid_ep_set_display_disable =
     drm_vid_ep_writel WREG_IRQ_ENABLE 0 @ drm_vid_ep_writel WREG_CORE_ENABLE 0"

definition drm_vid_ep_setup :: "io_event list" where
  "drm_vid_ep_setup =
     drm_vid_ep_writel WREG_IRQ_MASK IRQ_EN_MASK @ drm_vid_ep_writel WREG_IRQ_ENABLE 1
     @ [Stc_reset]"

subsection \<open>Interrupt handler\<close>

text \<open>
  \<^verbatim>\<open>drm_vid_ep_irq_handler\<close>. The argument is the value the device returns for the one
  \<^verbatim>\<open>readl\<close> of the status register. The result is the return value and the trace. The
  log messages are written without their final newline.
\<close>

definition drm_vid_ep_irq_handler :: "u32 \<Rightarrow> irqreturn \<times> io_event list" where
  "drm_vid_ep_irq_handler status =
     (let clr = 0;
          ev0 = [Readl RREG_IRQ_STATUS];
          reg = status;
          (clr, ev1) =
            (if reg AND AXI_S_VID_LOCKED_INTR \<noteq> 0
             then (clr OR AXI_S_VID_LOCKED_INTR,
                   ev0 @ [Dev_err_ratelimited ''AXI-4 Stream Locked'']) else (clr, ev0));
          (clr, ev2) =
            (if reg AND AXI_S_VID_OVERFLOW_INTR \<noteq> 0
             then (clr OR AXI_S_VID_OVERFLOW_INTR,
                   ev1 @ [Dev_err_ratelimited ''AXI-4 Stream Overflow error'']) else (clr, ev1));
          (clr, ev3) =
            (if reg AND AXI_S_VID_UNDERFLOW_INTR \<noteq> 0
             then (clr OR AXI_S_VID_UNDERFLOW_INTR,
                   ev2 @ [Dev_err_ratelimited ''AXI-4 Stream Underflow error'']) else (clr, ev2))
      in (IRQ_HANDLED, ev3 @ drm_vid_ep_writel WREG_IRQ_CLEAR clr))"

subsection \<open>SDI mode\<close>

text \<open>\<^verbatim>\<open>drm_vid_ep_set_sdi_mode\<close>: the \<^verbatim>\<open>switch\<close> in the order of its \<^verbatim>\<open>case\<close> labels.\<close>

definition drm_vid_ep_set_sdi_mode :: "u32 \<Rightarrow> bool \<Rightarrow> io_event list" where
  "drm_vid_ep_set_sdi_mode mode is_frac =
     (if mode = SDI_MODE_SD then drm_vid_ep_writel WREG_SDI_MODE 1
      else if mode = SDI_MODE_HD then drm_vid_ep_writel WREG_SDI_MODE 0
      else if mode = SDI_MODE_3GA then drm_vid_ep_writel WREG_SDI_MODE 2
      else if mode = SDI_MODE_6G then drm_vid_ep_writel WREG_SDI_MODE 4
      else if mode = SDI_MODE_12G then drm_vid_ep_writel WREG_SDI_MODE 5
      else drm_vid_ep_writel WREG_SDI_MODE 0)
     @ (if is_frac then drm_vid_ep_writel WREG_SDI_IS_FRAC 1
        else drm_vid_ep_writel WREG_SDI_IS_FRAC 0)"

definition drm_vid_ep_set_config_parameters :: "drm_vid_ep \<Rightarrow> io_event list" where
  "drm_vid_ep_set_config_parameters drm_ep =
     drm_vid_ep_set_sdi_mode (sdi_mod_prop_val drm_ep) (is_frac_prop_val drm_ep)"

subsection \<open>Connector properties\<close>

text \<open>
  \<^verbatim>\<open>drm_vid_ep_atomic_set_property\<close>: the chain of pointer comparisons in its order. The
  result is the return value and the structure after the call. A \<^verbatim>\<open>uint64_t\<close> stored
  in an \<^verbatim>\<open>unsigned int\<close> keeps its low 32 bits; stored in a \<^verbatim>\<open>bool\<close> it is 1 unless it
  is 0.
\<close>

definition drm_vid_ep_atomic_set_property :: "drm_vid_ep \<Rightarrow> ptr \<Rightarrow> u64 \<Rightarrow> int \<times> drm_vid_ep" where
  "drm_vid_ep_atomic_set_property drm_ep property val =
     (if property = sdi_mode drm_ep
      then (0, drm_ep\<lparr>sdi_mod_prop_val := ucast val\<rparr>)
      else if property = sdi_data_strm drm_ep
      then (0, drm_ep\<lparr>sdi_data_strm_prop_val := ucast val\<rparr>)
      else if property = sdi_420_in drm_ep
      then (0, drm_ep\<lparr>sdi_420_in_val := (val \<noteq> 0)\<rparr>)
      else if property = sdi_420_out drm_ep
      then (0, drm_ep\<lparr>sdi_420_out_val := (val \<noteq> 0)\<rparr>)
      else if property = is_frac_prop drm_ep
      then (0, drm_ep\<lparr>is_frac_prop_val := (val \<noteq> 0)\<rparr>)
      else if property = height_out drm_ep
      then (0, drm_ep\<lparr>height_out_prop_val := ucast val\<rparr>)
      else if property = width_out drm_ep
      then (0, drm_ep\<lparr>width_out_prop_val := ucast val\<rparr>)
      else if property = in_fmt drm_ep
      then (0, drm_ep\<lparr>in_fmt_prop_val := ucast val\<rparr>)
      else if property = out_fmt drm_ep
      then (0, drm_ep\<lparr>out_fmt_prop_val := ucast val\<rparr>)
      else (- EINVAL, drm_ep))"

text \<open>
  \<^verbatim>\<open>drm_vid_ep_atomic_get_property\<close>. The third argument is what \<^verbatim>\<open>*val\<close> holds before
  the call; the result is the return value and what \<^verbatim>\<open>*val\<close> holds after it.
\<close>

definition drm_vid_ep_atomic_get_property :: "drm_vid_ep \<Rightarrow> ptr \<Rightarrow> u64 \<Rightarrow> int \<times> u64" where
  "drm_vid_ep_atomic_get_property drm_ep property val =
     (if property = sdi_mode drm_ep
      then (0, ucast (sdi_mod_prop_val drm_ep))
      else if property = sdi_data_strm drm_ep
      then (0, ucast (sdi_data_strm_prop_val drm_ep))
      else if property = sdi_420_in drm_ep
      then (0, of_bool (sdi_420_in_val drm_ep))
      else if property = sdi_420_out drm_ep
      then (0, of_bool (sdi_420_out_val drm_ep))
      else if property = is_frac_prop drm_ep
      then (0, of_bool (is_frac_prop_val drm_ep))
      else if property = height_out drm_ep
      then (0, ucast (height_out_prop_val drm_ep))
      else if property = width_out drm_ep
      then (0, ucast (width_out_prop_val drm_ep))
      else if property = in_fmt drm_ep
      then (0, ucast (in_fmt_prop_val drm_ep))
      else if property = out_fmt drm_ep
      then (0, ucast (out_fmt_prop_val drm_ep))
      else (- EINVAL, val))"

text \<open>
  The nine property objects of a device, and a set followed by a get of the same
  property: the two return values and what the get stores in \<^verbatim>\<open>*val\<close>.
\<close>

definition prop_handles :: "drm_vid_ep \<Rightarrow> ptr list" where
  "prop_handles drm_ep = [sdi_mode drm_ep, sdi_data_strm drm_ep, sdi_420_in drm_ep,
     sdi_420_out drm_ep, is_frac_prop drm_ep, height_out drm_ep, width_out drm_ep,
     in_fmt drm_ep, out_fmt drm_ep]"

definition set_then_get :: "drm_vid_ep \<Rightarrow> ptr \<Rightarrow> u64 \<Rightarrow> u64 \<Rightarrow> int \<times> int \<times> u64" where
  "set_then_get drm_ep property v old =
     (let (r1, drm_ep') = drm_vid_ep_atomic_set_property drm_ep property v;
          (r2, got) = drm_vid_ep_atomic_get_property drm_ep' property old
      in (r1, r2, got))"

subsection \<open>Encoder mode-set\<close>

text \<open>
  The \<^verbatim>\<open>memcpy\<close> of \<^verbatim>\<open>SDI_TIMING_PARAMS_SIZE\<close> = 48 bytes from the table entry's \<^verbatim>\<open>clock\<close>
  to the adjusted mode's \<^verbatim>\<open>clock\<close>: the twelve members \<^verbatim>\<open>clock\<close>, ..., \<^verbatim>\<open>flags\<close>.
\<close>

definition sdi_timing_memcpy :: "drm_display_mode \<Rightarrow> drm_display_mode \<Rightarrow> drm_display_mode" where
  "sdi_timing_memcpy dst src =
     dst\<lparr>clock := clock src, hdisplay := hdisplay src, hsync_start := hsync_start src,
         hsync_end := hsync_end src, htotal := htotal src, hskew := hskew src,
         vdisplay := vdisplay src, vsync_start := vsync_start src,
         vsync_end := vsync_end src, vtotal := vtotal src, vscan := vscan src,
         flags := flags src\<rparr>"

text \<open>
  The \<^verbatim>\<open>for\<close> loop over \<^verbatim>\<open>xlnx_sdi_modes\<close> (the \<^verbatim>\<open>mode\<close> member of each entry, in table
  order; the table is declared in xlnx_sdi_modes.h and is a parameter here): the first
  entry whose size is the bridge's output size and whose refresh rate is the adjusted
  mode's is copied, and the loop is left.
\<close>

definition sdi_mode_match :: "drm_vid_ep \<Rightarrow> drm_display_mode \<Rightarrow> drm_display_mode \<Rightarrow> bool" where
  "sdi_mode_match drm_ep adjusted_mode m \<longleftrightarrow>
     hdisplay m = width_out_prop_val drm_ep \<and>
     vdisplay m = height_out_prop_val drm_ep \<and>
     vrefresh m = vrefresh adjusted_mode"

fun sdi_modes_scan ::
  "drm_vid_ep \<Rightarrow> drm_display_mode list \<Rightarrow> drm_display_mode \<Rightarrow> drm_display_mode" where
  "sdi_modes_scan drm_ep [] adjusted_mode = adjusted_mode"
| "sdi_modes_scan drm_ep (m # ms) adjusted_mode =
     (if sdi_mode_match drm_ep adjusted_mode m
      then sdi_timing_memcpy adjusted_mode m
      else sdi_modes_scan drm_ep ms adjusted_mode)"

definition mode_set_sdi_timing ::
  "drm_vid_ep \<Rightarrow> drm_display_mode list \<Rightarrow> drm_display_mode \<Rightarrow> drm_display_mode" where
  "mode_set_sdi_timing drm_ep xlnx_sdi_modes adjusted_mode =
     (if bridge drm_ep \<noteq> 0 then sdi_modes_scan drm_ep xlnx_sdi_modes adjusted_mode
      else adjusted_mode)"

text \<open>
  The assignments to the local \<^verbatim>\<open>struct videomode vm\<close> before the loop. The source does
  not initialise \<^verbatim>\<open>vm\<close>: the second argument is what the stack holds at its place when
  the function is entered.
\<close>

definition mode_set_videomode :: "drm_display_mode \<Rightarrow> videomode \<Rightarrow> videomode" where
  "mode_set_videomode adjusted_mode vm0 =
     (let vm = vm0\<lparr>hactive := int_div (hdisplay adjusted_mode) PIXELS_PER_CLK\<rparr>;
          vm = vm\<lparr>hfront_porch :=
                 int_div (hsync_start adjusted_mode - hdisplay adjusted_mode) PIXELS_PER_CLK\<rparr>;
          vm = vm\<lparr>hback_porch :=
                 int_div (htotal adjusted_mode - hsync_end adjusted_mode) PIXELS_PER_CLK\<rparr>;
          vm = vm\<lparr>hsync_len :=
                 int_div (hsync_end adjusted_mode - hsync_start adjusted_mode) PIXELS_PER_CLK\<rparr>;
          vm = vm\<lparr>vactive := vdisplay adjusted_mode\<rparr>;
          vm = vm\<lparr>vfront_porch := vsync_start adjusted_mode - vdisplay adjusted_mode\<rparr>;
          vm = (if flags adjusted_mode AND DRM_MODE_FLAG_INTERLACE \<noteq> 0
                then (if vtotal adjusted_mode = 1125
                      then vm\<lparr>vback_porch := 562 - vsync_end adjusted_mode\<rparr>
                      else if vtotal adjusted_mode = 625
                      then vm\<lparr>vback_porch := 312 - vsync_end adjusted_mode\<rparr>
                      else if vtotal adjusted_mode = 525
                      then vm\<lparr>vback_porch := 262 - vsync_end adjusted_mode\<rparr>
                      else vm)
                else vm\<lparr>vback_porch := vtotal adjusted_mode - vsync_end adjusted_mode\<rparr>);
          vm = vm\<lparr>vsync_len := vsync_end adjusted_mode - vsync_start adjusted_mode\<rparr>;
          vm = vm\<lparr>vm_flags := 0\<rparr>;
          vm = (if flags adjusted_mode AND DRM_MODE_FLAG_INTERLACE \<noteq> 0
                then vm\<lparr>vm_flags := vm_flags vm OR DISPLAY_FLAGS_INTERLACED\<rparr> else vm);
          vm = (if flags adjusted_mode AND DRM_MODE_FLAG_PHSYNC \<noteq> 0
                then vm\<lparr>vm_flags := vm_flags vm OR DISPLAY_FLAGS_HSYNC_LOW\<rparr> else vm);
          vm = (if flags adjusted_mode AND DRM_MODE_FLAG_PVSYNC \<noteq> 0
                then vm\<lparr>vm_flags := vm_flags vm OR DISPLAY_FLAGS_VSYNC_LOW\<rparr> else vm)
      in vm)"

text \<open>
  The two values one execution of the loop body computes, both \<^verbatim>\<open>u32\<close>.
\<close>

definition sditx_blank :: "drm_display_mode \<Rightarrow> u32" where
  "sditx_blank adjusted_mode =
     (hsync_start adjusted_mode - hdisplay adjusted_mode) +
     (hsync_end adjusted_mode - hsync_start adjusted_mode) +
     (htotal adjusted_mode - hsync_end adjusted_mode)"

definition vtc_blank :: "videomode \<Rightarrow> u32" where
  "vtc_blank vm = (hfront_porch vm + hback_porch vm + hsync_len vm) * PIXELS_PER_CLK"

text \<open>
  The \<^verbatim>\<open>do ... while (vtc_blank < sditx_blank)\<close> loop. It need not end, so it is a
  partial function: \<open>None\<close> is the loop that runs forever. The third argument is a
  log the source does not keep: one entry per execution of the body, holding the
  \<^verbatim>\<open>vtc_blank\<close> and \<^verbatim>\<open>sditx_blank\<close> computed there and whether \<^verbatim>\<open>vm.hfront_porch\<close> was
  incremented.
\<close>

type_synonym loop_log = "(u32 \<times> u32 \<times> bool) list"

partial_function (option) blank_loop ::
  "drm_display_mode \<Rightarrow> videomode \<Rightarrow> loop_log \<Rightarrow> (videomode \<times> loop_log) option" where
  "blank_loop adjusted_mode vm log =
     (if vtc_blank vm < sditx_blank adjusted_mode
      then blank_loop adjusted_mode
             (if vtc_blank vm \<noteq> sditx_blank adjusted_mode
              then vm\<lparr>hfront_porch := hfront_porch vm + 1\<rparr> else vm)
             (log @ [(vtc_blank vm, sditx_blank adjusted_mode,
                      vtc_blank vm \<noteq> sditx_blank adjusted_mode)])
      else Some (if vtc_blank vm \<noteq> sditx_blank adjusted_mode
                 then vm\<lparr>hfront_porch := hfront_porch vm + 1\<rparr> else vm,
                 log @ [(vtc_blank vm, sditx_blank adjusted_mode,
                         vtc_blank vm \<noteq> sditx_blank adjusted_mode)]))"

declare blank_loop.simps [code]

text \<open>
  \<^verbatim>\<open>drm_vid_ep_encoder_atomic_mode_set\<close>. Arguments: the table \<^verbatim>\<open>xlnx_sdi_modes\<close>, the
  device structure, \<^verbatim>\<open>crtc_state->adjusted_mode\<close> and the uninitialised \<^verbatim>\<open>vm\<close>. Result,
  when the loop ends: the device structure and the adjusted mode after the call, the
  \<^verbatim>\<open>vm\<close> handed to \<^verbatim>\<open>xlnx_stc_sig\<close>, the loop's log and the trace. \<^verbatim>\<open>unsigned long\<close> is
  64 bits wide (arm64), so the \<^verbatim>\<open>int\<close> product is sign-extended into \<^verbatim>\<open>pixelclock\<close>.
\<close>

definition drm_vid_ep_encoder_atomic_mode_set ::
  "drm_display_mode list \<Rightarrow> drm_vid_ep \<Rightarrow> drm_display_mode \<Rightarrow> videomode \<Rightarrow>
   (drm_vid_ep \<times> drm_display_mode \<times> videomode \<times> loop_log \<times> io_event list) option" where
  "drm_vid_ep_encoder_atomic_mode_set xlnx_sdi_modes drm_ep adjusted_mode0 vm0 =
     (let ev = [Bridge_set_input (bridge drm_ep) (hdisplay adjusted_mode0)
                  (vdisplay adjusted_mode0) (in_fmt_prop_val drm_ep),
                Bridge_set_output (bridge drm_ep) (width_out_prop_val drm_ep)
                  (height_out_prop_val drm_ep) (out_fmt_prop_val drm_ep),
                Bridge_enable (bridge drm_ep)];
          adjusted_mode = mode_set_sdi_timing drm_ep xlnx_sdi_modes adjusted_mode0;
          ev = ev @ drm_vid_ep_setup @ drm_vid_ep_set_config_parameters drm_ep;
          vm = mode_set_videomode adjusted_mode vm0
      in case blank_loop adjusted_mode vm [] of
           None \<Rightarrow> None
         | Some (vm, log) \<Rightarrow>
             (let vm = vm\<lparr>pixelclock := scast (clock adjusted_mode * 1000)\<rparr>;
                  drm_ep = drm_ep\<lparr>video_mode := (video_mode drm_ep)
                             \<lparr>vdisplay := vdisplay adjusted_mode,
                              hdisplay := hdisplay adjusted_mode,
                              vrefresh := vrefresh adjusted_mode,
                              flags := flags adjusted_mode\<rparr>\<rparr>
              in Some (drm_ep, adjusted_mode, vm, log, ev @ [Stc_sig vm])))"

subsection \<open>Commit and disable\<close>

text \<open>
  \<^verbatim>\<open>drm_vid_ep_commit\<close> (without its \<^verbatim>\<open>dev_dbg\<close> line) and \<^verbatim>\<open>drm_vid_ep_disable\<close>.
\<close>

definition drm_vid_ep_commit :: "io_event list" where
  "drm_vid_ep_commit =
     drm_vid_ep_set_display_enable @ drm_vid_ep_enable_sdi_bridge @ [Stc_enable]
     @ [Stc_fsync_enable] @ drm_vid_ep_enable_axi4s"

definition drm_vid_ep_disable :: "drm_vid_ep \<Rightarrow> io_event list" where
  "drm_vid_ep_disable drm_ep =
     (if bridge drm_ep \<noteq> 0 then [Bridge_disable (bridge drm_ep)] else [])
     @ drm_vid_ep_set_display_disable @ drm_vid_ep_disable_axi4s
     @ drm_vid_ep_disable_sdi_bridge @ [Stc_fsync_disable] @ [Stc_disable]"

subsection \<open>Valid horizontal timings\<close>

text \<open>
  The horizontal timings of a mode are valid when, read as \<^verbatim>\<open>int\<close>s,
  \<open>0 \<le> hdisplay \<le> hsync_start \<le> hsync_end \<le> htotal\<close>.
\<close>

definition valid_htiming :: "drm_display_mode \<Rightarrow> bool" where
  "valid_htiming adjusted_mode \<longleftrightarrow>
     0 \<le>s hdisplay adjusted_mode \<and>
     hdisplay adjusted_mode \<le>s hsync_start adjusted_mode \<and>
     hsync_start adjusted_mode \<le>s hsync_end adjusted_mode \<and>
     hsync_end adjusted_mode \<le>s htotal adjusted_mode"

text \<open>
  The disable operations of the four blocks \<^verbatim>\<open>drm_vid_ep_commit\<close> enables after the core:
  the SDI bridge, the timing controller, its frame sync and the AXI4-Stream input.
\<close>

fun is_block_disable :: "io_event \<Rightarrow> bool" where
  "is_block_disable (Writel offset val) =
     ((offset = WREG_SDI_BRIDGE_ENABLE \<or> offset = WREG_AXI_S_VID_ENABLE) \<and> val = 0)"
| "is_block_disable Stc_disable = True"
| "is_block_disable Stc_fsync_disable = True"
| "is_block_disable _ = False"

subsection \<open>Example inputs\<close>

text \<open>A stack that holds zeros where \<^verbatim>\<open>vm\<close> is placed.\<close>

definition zero_vm :: videomode where
  "zero_vm = \<lparr>pixelclock = 0, hactive = 0, hfront_porch = 0, hback_porch = 0,
     hsync_len = 0, vactive = 0, vfront_porch = 0, vback_porch = 0, vsync_len = 0,
     vm_flags = 0\<rparr>"

text \<open>3840x2160 with a 594 MHz pixel clock.\<close>

definition mode_2160p :: drm_display_mode where
  "mode_2160p = \<lparr>clock = 594000, hdisplay = 3840, hsync_start = 3888, hsync_end = 3920,
     htotal = 4016, hskew = 0, vdisplay = 2160, vsync_start = 2168, vsync_end = 2176,
     vtotal = 2222, vscan = 0, flags = 0, vrefresh = 67\<rparr>"

text \<open>1920x1080 at 60 Hz, and the same with a line one pixel longer.\<close>

definition mode_1080p :: drm_display_mode where
  "mode_1080p = \<lparr>clock = 148500, hdisplay = 1920, hsync_start = 2008, hsync_end = 2052,
     htotal = 2200, hskew = 0, vdisplay = 1080, vsync_start = 1084, vsync_end = 1089,
     vtotal = 1125, vscan = 0, flags = 5, vrefresh = 60\<rparr>"

definition mode_1080p_odd :: drm_display_mode where
  "mode_1080p_odd = mode_1080p\<lparr>htotal := 2201\<rparr>"

text \<open>1920x1080 with porches and sync of one pixel each.\<close>

definition mode_narrow :: drm_display_mode where
  "mode_narrow = mode_1080p\<lparr>hsync_start := 1921, hsync_end := 1922, htotal := 1923\<rparr>"

text \<open>Ordered horizontal timings with a negative \<^verbatim>\<open>hdisplay\<close> (\<open>INT_MIN\<close> and \<open>INT_MAX\<close>).\<close>

definition mode_negative :: drm_display_mode where
  "mode_negative = mode_1080p\<lparr>hdisplay := - 2147483648, hsync_start := 0, hsync_end := 0,
     htotal := 2147483647\<rparr>"

text \<open>
  Interlaced modes: fields of 540 lines in a frame of 1125 lines, and the 1080-line
  format of 1250 lines at 50 Hz.
\<close>

definition mode_1080i :: drm_display_mode where
  "mode_1080i = \<lparr>clock = 74250, hdisplay = 1920, hsync_start = 2008, hsync_end = 2052,
     htotal = 2200, hskew = 0, vdisplay = 540, vsync_start = 542, vsync_end = 547,
     vtotal = 1125, vscan = 0, flags = 21, vrefresh = 60\<rparr>"

definition mode_1080i_1250 :: drm_display_mode where
  "mode_1080i_1250 = \<lparr>clock = 72000, hdisplay = 1920, hsync_start = 1952, hsync_end = 2120,
     htotal = 2304, hskew = 0, vdisplay = 1080, vsync_start = 1126, vsync_end = 1136,
     vtotal = 1250, vscan = 0, flags = 25, vrefresh = 50\<rparr>"

text \<open>A table entry for 1280x720 at 60 Hz.\<close>

definition mode_720p :: drm_display_mode where
  "mode_720p = \<lparr>clock = 74250, hdisplay = 1280, hsync_start = 1390, hsync_end = 1430,
     htotal = 1650, hskew = 0, vdisplay = 720, vsync_start = 725, vsync_end = 730,
     vtotal = 750, vscan = 0, flags = 5, vrefresh = 60\<rparr>"

text \<open>
  A device with nine distinct property objects and a bridge, set to 12G and to an
  output of 3840x2160.
\<close>

definition example_ep :: drm_vid_ep where
  "example_ep = \<lparr>sdi_mode = 101, sdi_mod_prop_val = SDI_MODE_12G,
     sdi_data_strm = 102, sdi_data_strm_prop_val = 8,
     sdi_420_in = 103, sdi_420_in_val = False,
     sdi_420_out = 104, sdi_420_out_val = False,
     is_frac_prop = 105, is_frac_prop_val = False,
     bridge = 200,
     height_out = 106, height_out_prop_val = 2160,
     width_out = 107, width_out_prop_val = 3840,
     in_fmt = 108, in_fmt_prop_val = 0,
     out_fmt = 109, out_fmt_prop_val = 0,
     video_mode = mode_1080p\<rparr>"

section \<open>Properties\<close>

lemmas reg_defs = drm_vid_ep_writel_def drm_vid_ep_enable_sdi_bridge_def
  drm_vid_ep_disable_sdi_bridge_def drm_vid_ep_enable_axi4s_def drm_vid_ep_disable_axi4s_def
  drm_vid_ep_set_display_enable_def drm_vid_ep_set_display_disable_def drm_vid_ep_setup_def

subsection \<open>The interrupt handler\<close>

lemma and_exp_cases: "(w::32 word) AND 2 ^ n = 0 \<or> w AND 2 ^ n = 2 ^ n"
proof -
  have "w AND 2 ^ n = push_bit n (of_bool (bit w n))"
    by (rule bit_eqI) (auto simp: bit_simps)
  then show ?thesis by (auto split: if_splits)
qed

lemma irq_mask:
  "(if (w::32 word) AND 1 \<noteq> 0 then 1 else 0) OR (if w AND 2 \<noteq> 0 then 2 else 0)
     OR (if w AND 4 \<noteq> 0 then 4 else 0) = w AND 7"
proof -
  have s: "(7::32 word) = 1 OR 2 OR 4" by simp
  have e: "w AND 7 = (w AND 1) OR (w AND 2) OR (w AND 4)"
    by (simp only: s bit.conj_disj_distrib)
  have c0: "w AND 1 = 0 \<or> w AND 1 = 1"
    using and_exp_cases [of w 0] by simp
  have c1: "w AND 2 = 0 \<or> w AND 2 = 2"
    using and_exp_cases [of w 1] by simp
  have c2: "w AND 4 = 0 \<or> w AND 4 = 4"
    using and_exp_cases [of w 2] by simp
  show ?thesis using c0 c1 c2 unfolding e by auto
qed

lemma irq_handler_clr:
  "\<exists>logs. drm_vid_ep_irq_handler status =
     (IRQ_HANDLED, Readl RREG_IRQ_STATUS # map Dev_err_ratelimited logs @
        [Writel WREG_IRQ_CLEAR
          ((if status AND 1 \<noteq> 0 then 1 else 0) OR (if status AND 2 \<noteq> 0 then 2 else 0)
            OR (if status AND 4 \<noteq> 0 then 4 else 0))])"
proof -
  let ?l0 = "if status AND 1 \<noteq> 0 then [''AXI-4 Stream Locked''] else []"
  let ?l1 = "if status AND 2 \<noteq> 0 then [''AXI-4 Stream Overflow error''] else []"
  let ?l2 = "if status AND 4 \<noteq> 0 then [''AXI-4 Stream Underflow error''] else []"
  have "drm_vid_ep_irq_handler status =
     (IRQ_HANDLED, Readl RREG_IRQ_STATUS # map Dev_err_ratelimited (?l0 @ ?l1 @ ?l2) @
        [Writel WREG_IRQ_CLEAR
          ((if status AND 1 \<noteq> 0 then 1 else 0) OR (if status AND 2 \<noteq> 0 then 2 else 0)
            OR (if status AND 4 \<noteq> 0 then 4 else 0))])"
    by (simp add: drm_vid_ep_irq_handler_def drm_vid_ep_writel_def Let_def)
  then show ?thesis by blast
qed

text \<open>
  Claim C7. For every value of the interrupt status register, one run of the handler
  returns \<^verbatim>\<open>IRQ_HANDLED\<close> and its trace is: one read, of the status register; then
  nothing but rate-limited log messages; then one write, to the interrupt clear
  register, of the status masked with the three condition bits. No other register is
  written, so none of the enable registers is. For the status \<open>0b110\<close> the write is
  \<open>0b110\<close>.
\<close>

theorem irq_handler_single_clear:
  "(\<exists>logs. drm_vid_ep_irq_handler status =
      (IRQ_HANDLED,
       Readl RREG_IRQ_STATUS # map Dev_err_ratelimited logs
         @ [Writel WREG_IRQ_CLEAR
              (status AND (AXI_S_VID_LOCKED_INTR OR AXI_S_VID_OVERFLOW_INTR
                 OR AXI_S_VID_UNDERFLOW_INTR))]))
   \<and> drm_vid_ep_irq_handler 6 =
      (IRQ_HANDLED,
       [Readl RREG_IRQ_STATUS,
        Dev_err_ratelimited ''AXI-4 Stream Overflow error'',
        Dev_err_ratelimited ''AXI-4 Stream Underflow error'',
        Writel WREG_IRQ_CLEAR 6])"
proof
  have "(AXI_S_VID_LOCKED_INTR OR AXI_S_VID_OVERFLOW_INTR OR AXI_S_VID_UNDERFLOW_INTR) = 7"
    by simp
  then show "\<exists>logs. drm_vid_ep_irq_handler status =
      (IRQ_HANDLED,
       Readl RREG_IRQ_STATUS # map Dev_err_ratelimited logs
         @ [Writel WREG_IRQ_CLEAR
              (status AND (AXI_S_VID_LOCKED_INTR OR AXI_S_VID_OVERFLOW_INTR
                 OR AXI_S_VID_UNDERFLOW_INTR))])"
    using irq_handler_clr [of status] by (simp only: irq_mask)
  show "drm_vid_ep_irq_handler 6 =
      (IRQ_HANDLED,
       [Readl RREG_IRQ_STATUS,
        Dev_err_ratelimited ''AXI-4 Stream Overflow error'',
        Dev_err_ratelimited ''AXI-4 Stream Underflow error'',
        Writel WREG_IRQ_CLEAR 6])"
    by (simp add: drm_vid_ep_irq_handler_def drm_vid_ep_writel_def)
qed

subsection \<open>The SDI mode register\<close>

text \<open>
  What \<^verbatim>\<open>drm_vid_ep_set_sdi_mode\<close> writes for every mode: SD, 3G-A, 6G and 12G write their
  own number, every other value writes 0; then the fractional-rate register gets 1 or 0.
\<close>

lemma set_sdi_mode_codes:
  "drm_vid_ep_set_sdi_mode mode is_frac =
     [Writel WREG_SDI_MODE
        (if mode = SDI_MODE_SD \<or> mode = SDI_MODE_3GA \<or> mode = SDI_MODE_6G \<or> mode = SDI_MODE_12G
         then mode else 0),
      Writel WREG_SDI_IS_FRAC (of_bool is_frac)]"
  by (simp add: drm_vid_ep_set_sdi_mode_def drm_vid_ep_writel_def)

text \<open>
  Claim C3, at the mode 3G-B. The claim gives 3G-B (3) the register code 3. The
  \<^verbatim>\<open>switch\<close> has no \<^verbatim>\<open>case SDI_MODE_3GB\<close>, so the mode falls to \<^verbatim>\<open>default\<close> and the code
  written is 0, that of HD.
\<close>

theorem set_sdi_mode_3gb_writes_hd:
  "drm_vid_ep_set_sdi_mode SDI_MODE_3GB is_frac =
     [Writel WREG_SDI_MODE 0, Writel WREG_SDI_IS_FRAC (of_bool is_frac)]"
  by (simp add: drm_vid_ep_set_sdi_mode_def drm_vid_ep_writel_def)

subsection \<open>Commit and disable\<close>

text \<open>
  Claim C4, as the code has it. \<^verbatim>\<open>drm_vid_ep_commit\<close> enables, in this order, the core,
  the SDI bridge, the timing controller, its frame sync and the AXI4-Stream input.
  \<^verbatim>\<open>drm_vid_ep_disable\<close> first disables the external bridge when one is attached, then
  clears the interrupt enable and the core enable, then disables the AXI4-Stream input,
  the SDI bridge, the frame sync and the timing controller: of the four blocks the
  order is (stream input, bridge, frame sync, timing controller), which is not the
  reverse of the order of commit.
\<close>

theorem commit_disable_order:
  "drm_vid_ep_commit =
     [Writel WREG_CORE_ENABLE 1, Writel WREG_SDI_BRIDGE_ENABLE 1, Stc_enable,
      Stc_fsync_enable, Writel WREG_AXI_S_VID_ENABLE 1]
   \<and> drm_vid_ep_disable drm_ep =
     (if bridge drm_ep \<noteq> 0 then [Bridge_disable (bridge drm_ep)] else [])
     @ [Writel WREG_IRQ_ENABLE 0, Writel WREG_CORE_ENABLE 0, Writel WREG_AXI_S_VID_ENABLE 0,
        Writel WREG_SDI_BRIDGE_ENABLE 0, Stc_fsync_disable, Stc_disable]
   \<and> filter is_block_disable (drm_vid_ep_disable drm_ep) =
     [Writel WREG_AXI_S_VID_ENABLE 0, Writel WREG_SDI_BRIDGE_ENABLE 0, Stc_fsync_disable,
      Stc_disable]"
  by (simp add: drm_vid_ep_commit_def drm_vid_ep_disable_def reg_defs)

text \<open>
  The claim's order of disable (stream input, frame sync, timing controller, bridge)
  is not the order of the code, here on the example device.
\<close>

theorem disable_order_counterexample:
  "drm_vid_ep_disable example_ep =
     [Bridge_disable 200, Writel WREG_IRQ_ENABLE 0, Writel WREG_CORE_ENABLE 0,
      Writel WREG_AXI_S_VID_ENABLE 0, Writel WREG_SDI_BRIDGE_ENABLE 0, Stc_fsync_disable,
      Stc_disable]
   \<and> filter is_block_disable (drm_vid_ep_disable example_ep) \<noteq>
     [Writel WREG_AXI_S_VID_ENABLE 0, Stc_fsync_disable, Stc_disable,
      Writel WREG_SDI_BRIDGE_ENABLE 0]"
  by (simp add: drm_vid_ep_disable_def reg_defs example_ep_def)

subsection \<open>Connector properties\<close>

lemma trunc32: "ucast (ucast (v::64 word) :: 32 word) = (take_bit 32 v :: 64 word)"
  by (simp add: unsigned_ucast_eq)

text \<open>
  Claim C10. On a device whose nine property objects are distinct: setting one of the
  six range properties to \<open>v\<close> and getting it returns 0 twice and the low 32 bits of
  \<open>v\<close>; for one of the three boolean properties it returns 0 twice and 1 when \<open>v\<close> is
  not 0, else 0; for a property that is none of the nine, set and get return
  \<^verbatim>\<open>-EINVAL\<close>, the set leaves the device structure as it was, and the get leaves
  \<^verbatim>\<open>*val\<close> as it was.
\<close>

theorem property_set_get:
  assumes "distinct (prop_handles drm_ep)"
  shows "(property \<in> {sdi_mode drm_ep, sdi_data_strm drm_ep, height_out drm_ep,
                      width_out drm_ep, in_fmt drm_ep, out_fmt drm_ep} \<longrightarrow>
            set_then_get drm_ep property v old = (0, 0, take_bit 32 v))
       \<and> (property \<in> {sdi_420_in drm_ep, sdi_420_out drm_ep, is_frac_prop drm_ep} \<longrightarrow>
            set_then_get drm_ep property v old = (0, 0, of_bool (v \<noteq> 0)))
       \<and> (property \<notin> set (prop_handles drm_ep) \<longrightarrow>
            drm_vid_ep_atomic_set_property drm_ep property v = (- EINVAL, drm_ep) \<and>
            drm_vid_ep_atomic_get_property drm_ep property old = (- EINVAL, old))"
proof (intro conjI impI)
  assume "property \<in> {sdi_mode drm_ep, sdi_data_strm drm_ep, height_out drm_ep,
                      width_out drm_ep, in_fmt drm_ep, out_fmt drm_ep}"
  then show "set_then_get drm_ep property v old = (0, 0, take_bit 32 v)"
    using assms
    by (auto simp add: set_then_get_def drm_vid_ep_atomic_set_property_def
      drm_vid_ep_atomic_get_property_def prop_handles_def trunc32)
next
  assume "property \<in> {sdi_420_in drm_ep, sdi_420_out drm_ep, is_frac_prop drm_ep}"
  then show "set_then_get drm_ep property v old = (0, 0, of_bool (v \<noteq> 0))"
    using assms
    by (auto simp add: set_then_get_def drm_vid_ep_atomic_set_property_def
      drm_vid_ep_atomic_get_property_def prop_handles_def)
next
  assume "property \<notin> set (prop_handles drm_ep)"
  then show "drm_vid_ep_atomic_set_property drm_ep property v = (- EINVAL, drm_ep)"
    by (simp add: drm_vid_ep_atomic_set_property_def prop_handles_def)
next
  assume "property \<notin> set (prop_handles drm_ep)"
  then show "drm_vid_ep_atomic_get_property drm_ep property old = (- EINVAL, old)"
    by (simp add: drm_vid_ep_atomic_get_property_def prop_handles_def)
qed

text \<open>
  On the example device: the range property \<^verbatim>\<open>sdi_mode\<close> set to \<open>0x100000005\<close> reads
  back 5, the boolean property \<^verbatim>\<open>sdi_420_in\<close> set to 2 reads back 1, and the unknown
  property 999 is refused by both calls.
\<close>

theorem property_set_get_witness:
  "distinct (prop_handles example_ep)
   \<and> set_then_get example_ep (sdi_mode example_ep) 0x100000005 0 = (0, 0, 5)
   \<and> set_then_get example_ep (sdi_420_in example_ep) 2 0 = (0, 0, 1)
   \<and> drm_vid_ep_atomic_set_property example_ep 999 7 = (- EINVAL, example_ep)
   \<and> drm_vid_ep_atomic_get_property example_ep 999 7 = (- EINVAL, 7)"
proof -
  have d: "distinct (prop_handles example_ep)"
    by (simp add: prop_handles_def example_ep_def)
  have n: "999 \<notin> set (prop_handles example_ep)"
    by (simp add: prop_handles_def example_ep_def)
  show ?thesis
    using d n property_set_get [OF d, of "sdi_mode example_ep" "0x100000005" 0]
      property_set_get [OF d, of "sdi_420_in example_ep" 2 0]
      property_set_get [OF d, of 999 7 7]
    by simp
qed

subsection \<open>Signed and unsigned readings of 32-bit values\<close>

lemma sint32_shift:
  "sint (w::32 word) = (uint w + 2147483648) mod 4294967296 - 2147483648"
  by (simp add: sint_uint signed_take_bit_eq_take_bit_shift take_bit_eq_mod)

lemma uint32_bound: "uint (w::32 word) < 4294967296"
  using uint_lt2p [of w] by simp

lemma sint32_pos: "uint (w::32 word) < 2147483648 \<Longrightarrow> sint w = uint w"
proof -
  assume a: "uint w < 2147483648"
  have "(uint w + 2147483648) mod 4294967296 = uint w + 2147483648"
    by (rule mod_pos_pos_trivial) (use a uint_nonnegative [of w] in linarith)+
  then show ?thesis by (simp add: sint32_shift)
qed

lemma sint32_neg: "\<not> uint (w::32 word) < 2147483648 \<Longrightarrow> sint w = uint w - 4294967296"
proof -
  assume a: "\<not> uint w < 2147483648"
  have "uint w + 2147483648 = (uint w - 2147483648) + 4294967296" by linarith
  then have "(uint w + 2147483648) mod 4294967296 = (uint w - 2147483648) mod 4294967296"
    by (simp only: mod_add_self2)
  also have "\<dots> = uint w - 2147483648"
    by (rule mod_pos_pos_trivial) (use a uint32_bound [of w] in linarith)+
  finally show ?thesis by (simp add: sint32_shift)
qed

lemma sint32_nonneg_iff: "0 \<le> sint (w::32 word) \<longleftrightarrow> uint w < 2147483648"
  using sint32_pos [of w] sint32_neg [of w] uint32_bound [of w] uint_nonnegative [of w]
  by (cases "uint w < 2147483648") linarith+

lemma sle_nonneg: "0 \<le>s (a::32 word) \<Longrightarrow> uint a < 2147483648"
  by (simp add: word_sle_eq sint32_nonneg_iff)

lemma sle_mono:
  assumes "uint (a::32 word) < 2147483648" and "a \<le>s b"
  shows "uint a \<le> uint b \<and> uint b < 2147483648"
proof -
  have "sint a \<le> sint b" using assms(2) by (simp add: word_sle_eq)
  moreover have "sint a = uint a" using assms(1) by (rule sint32_pos)
  ultimately have "0 \<le> sint b" "uint a \<le> sint b" using uint_nonnegative [of a] by linarith+
  then show ?thesis using sint32_nonneg_iff [of b] sint32_pos [of b] by simp
qed

lemma uint_diff: "uint (a::32 word) \<le> uint b \<Longrightarrow> uint (b - a) = uint b - uint a"
  using uint_sub_lem [where x = b and y = a] by simp

lemma uint_sum3:
  assumes "uint (a::32 word) + uint b + uint c < 4294967296"
  shows "uint (a + b + c) = uint a + uint b + uint c"
proof -
  have ab: "uint (a + b) = uint a + uint b"
    using assms uint_add_lem [where x = a and y = b] uint_nonnegative [of c] by simp
  then show ?thesis
    using assms uint_add_lem [where x = "a + b" and y = c] by simp
qed

lemma uint_double:
  assumes "uint (a::32 word) * 2 < 4294967296"
  shows "uint (a * 2) = uint a * 2"
proof -
  have "a * 2 = a + a" by simp
  then show ?thesis
    using assms uint_add_lem [where x = a and y = a] by (simp add: mult.commute)
qed

lemma uint_plus2: "uint (v::32 word) + 2 < 4294967296 \<Longrightarrow> uint (v + 2) = uint v + 2"
  using uint_add_lem [where x = v and y = 2] by simp

lemma uint_plus4: "uint (v::32 word) + 4 < 4294967296 \<Longrightarrow> uint (v + 4) = uint v + 4"
  using uint_add_lem [where x = v and y = 4] by simp

lemma int_div2:
  assumes "uint (x::32 word) < 2147483648"
  shows "uint (int_div x 2) = uint x div 2"
proof -
  have "sint x = uint x" using assms by (rule sint32_pos)
  moreover have "sint (2::32 word) = 2" by simp
  moreover have "uint x sdiv 2 = uint x div 2"
    using uint_nonnegative [of x] by (simp add: signed_divide_int_def sgn_if)
  ultimately have "int_div x 2 = word_of_int (uint x div 2)" by (simp add: int_div_def)
  moreover have "uint (word_of_int (uint x div 2) :: 32 word) = uint x div 2"
    using assms uint_nonnegative [of x] by (simp add: uint_word_of_int take_bit_eq_mod)
  ultimately show ?thesis by simp
qed

subsection \<open>The blanking loop, one step at a time\<close>

lemma blank_loop_exit:
  "\<not> vtc_blank vm < sditx_blank am \<Longrightarrow>
   blank_loop am vm log =
     Some (if vtc_blank vm \<noteq> sditx_blank am
           then vm\<lparr>hfront_porch := hfront_porch vm + 1\<rparr> else vm,
           log @ [(vtc_blank vm, sditx_blank am, vtc_blank vm \<noteq> sditx_blank am)])"
  by (subst blank_loop.simps) simp

lemma blank_loop_again:
  "vtc_blank vm < sditx_blank am \<Longrightarrow>
   blank_loop am vm log =
     blank_loop am (vm\<lparr>hfront_porch := hfront_porch vm + 1\<rparr>)
       (log @ [(vtc_blank vm, sditx_blank am, True)])"
  by (subst blank_loop.simps) auto

lemma vtc_blank_step:
  "vtc_blank (vm\<lparr>hfront_porch := hfront_porch vm + 1\<rparr>) = vtc_blank vm + 2"
  by (simp add: vtc_blank_def algebra_simps)

lemma loop_d0:
  assumes "uint (sditx_blank am) = uint (vtc_blank vm)"
  shows "blank_loop am vm log = Some (vm, log @ [(vtc_blank vm, sditx_blank am, False)])"
proof -
  have "vtc_blank vm = sditx_blank am" using assms by (simp add: word_uint_eq_iff)
  then show ?thesis by (simp add: blank_loop_exit)
qed

lemma loop_over:
  assumes "uint (sditx_blank am) < uint (vtc_blank vm)"
  shows "blank_loop am vm log =
    Some (vm\<lparr>hfront_porch := hfront_porch vm + 1\<rparr>,
          log @ [(vtc_blank vm, sditx_blank am, True)])"
proof -
  have "sditx_blank am < vtc_blank vm" using assms by (simp add: word_less_def)
  then have "\<not> vtc_blank vm < sditx_blank am" "vtc_blank vm \<noteq> sditx_blank am" by auto
  then show ?thesis by (simp add: blank_loop_exit)
qed

lemma loop_under:
  assumes "uint (vtc_blank vm) < uint (sditx_blank am)"
  shows "blank_loop am vm log =
     blank_loop am (vm\<lparr>hfront_porch := hfront_porch vm + 1\<rparr>)
       (log @ [(vtc_blank vm, sditx_blank am, True)])"
  using assms by (simp add: word_less_def blank_loop_again)

lemma loop_d1:
  assumes "uint (sditx_blank am) = uint (vtc_blank vm) + 1"
    and "uint (sditx_blank am) < 2147483648"
  shows "blank_loop am vm log =
    Some (vm\<lparr>hfront_porch := hfront_porch vm + 2\<rparr>,
          log @ [(vtc_blank vm, sditx_blank am, True),
                 (vtc_blank vm + 2, sditx_blank am, True)])"
proof -
  let ?vm1 = "vm\<lparr>hfront_porch := hfront_porch vm + 1\<rparr>"
  have v1: "vtc_blank ?vm1 = vtc_blank vm + 2" by (rule vtc_blank_step)
  have "uint (vtc_blank vm + 2) = uint (vtc_blank vm) + 2"
    using assms by (intro uint_plus2) simp
  then have "uint (sditx_blank am) < uint (vtc_blank ?vm1)" using assms v1 by simp
  then have "blank_loop am ?vm1 (log @ [(vtc_blank vm, sditx_blank am, True)]) =
    Some (?vm1\<lparr>hfront_porch := hfront_porch ?vm1 + 1\<rparr>,
      (log @ [(vtc_blank vm, sditx_blank am, True)])
        @ [(vtc_blank ?vm1, sditx_blank am, True)])"
    by (rule loop_over)
  moreover have "blank_loop am vm log =
      blank_loop am ?vm1 (log @ [(vtc_blank vm, sditx_blank am, True)])"
    using assms by (intro loop_under) simp
  ultimately show ?thesis by (simp add: v1)
qed

lemma loop_d2:
  assumes "uint (sditx_blank am) = uint (vtc_blank vm) + 2"
    and "uint (sditx_blank am) < 2147483648"
  shows "blank_loop am vm log =
    Some (vm\<lparr>hfront_porch := hfront_porch vm + 1\<rparr>,
          log @ [(vtc_blank vm, sditx_blank am, True),
                 (vtc_blank vm + 2, sditx_blank am, False)])"
proof -
  let ?vm1 = "vm\<lparr>hfront_porch := hfront_porch vm + 1\<rparr>"
  have v1: "vtc_blank ?vm1 = vtc_blank vm + 2" by (rule vtc_blank_step)
  have "uint (vtc_blank vm + 2) = uint (vtc_blank vm) + 2"
    using assms by (intro uint_plus2) simp
  then have "uint (sditx_blank am) = uint (vtc_blank ?vm1)" using assms v1 by simp
  then have "blank_loop am ?vm1 (log @ [(vtc_blank vm, sditx_blank am, True)]) =
    Some (?vm1,
      (log @ [(vtc_blank vm, sditx_blank am, True)])
        @ [(vtc_blank ?vm1, sditx_blank am, False)])"
    by (rule loop_d0)
  moreover have "blank_loop am vm log =
      blank_loop am ?vm1 (log @ [(vtc_blank vm, sditx_blank am, True)])"
    using assms by (intro loop_under) simp
  ultimately show ?thesis by (simp add: v1)
qed

lemma loop_d3:
  assumes "uint (sditx_blank am) = uint (vtc_blank vm) + 3"
    and "uint (sditx_blank am) < 2147483648"
  shows "blank_loop am vm log =
    Some (vm\<lparr>hfront_porch := hfront_porch vm + 3\<rparr>,
          log @ [(vtc_blank vm, sditx_blank am, True),
                 (vtc_blank vm + 2, sditx_blank am, True),
                 (vtc_blank vm + 4, sditx_blank am, True)])"
proof -
  let ?vm1 = "vm\<lparr>hfront_porch := hfront_porch vm + 1\<rparr>"
  have v1: "vtc_blank ?vm1 = vtc_blank vm + 2" by (rule vtc_blank_step)
  have "uint (vtc_blank vm + 2) = uint (vtc_blank vm) + 2"
    using assms by (intro uint_plus2) simp
  then have "uint (sditx_blank am) = uint (vtc_blank ?vm1) + 1" using assms v1 by simp
  then have "blank_loop am ?vm1 (log @ [(vtc_blank vm, sditx_blank am, True)]) =
    Some (?vm1\<lparr>hfront_porch := hfront_porch ?vm1 + 2\<rparr>,
      (log @ [(vtc_blank vm, sditx_blank am, True)]) @
        [(vtc_blank ?vm1, sditx_blank am, True), (vtc_blank ?vm1 + 2, sditx_blank am, True)])"
    using assms(2) by (rule loop_d1)
  moreover have "blank_loop am vm log =
      blank_loop am ?vm1 (log @ [(vtc_blank vm, sditx_blank am, True)])"
    using assms by (intro loop_under) simp
  ultimately show ?thesis by (simp add: v1)
qed

text \<open>The loop changes no member of \<^verbatim>\<open>vm\<close> but \<^verbatim>\<open>hfront_porch\<close>.\<close>

lemma blank_loop_frame_aux:
  assumes "blank_loop am vm log = Some r"
  shows "fst r = vm\<lparr>hfront_porch := hfront_porch (fst r)\<rparr>"
proof (rule blank_loop.raw_induct
    [where P = "\<lambda>am vm log r. fst r = vm\<lparr>hfront_porch := hfront_porch (fst r)\<rparr>"])
  show "blank_loop am vm log = Some r" by fact
next
  fix f :: "drm_display_mode \<Rightarrow> videomode \<Rightarrow> loop_log \<Rightarrow> (videomode \<times> loop_log) option"
  fix am vm log r
  assume IH: "\<And>am vm log r. f am vm log = Some r \<Longrightarrow>
      fst r = vm\<lparr>hfront_porch := hfront_porch (fst r)\<rparr>"
  assume body: "(if vtc_blank vm < sditx_blank am
      then f am
             (if vtc_blank vm \<noteq> sditx_blank am
              then vm\<lparr>hfront_porch := hfront_porch vm + 1\<rparr> else vm)
             (log @ [(vtc_blank vm, sditx_blank am,
                      vtc_blank vm \<noteq> sditx_blank am)])
      else Some (if vtc_blank vm \<noteq> sditx_blank am
                 then vm\<lparr>hfront_porch := hfront_porch vm + 1\<rparr> else vm,
                 log @ [(vtc_blank vm, sditx_blank am,
                         vtc_blank vm \<noteq> sditx_blank am)])) = Some r"
  show "fst r = vm\<lparr>hfront_porch := hfront_porch (fst r)\<rparr>"
  proof (cases "vtc_blank vm < sditx_blank am")
    case True
    moreover from True have "vtc_blank vm \<noteq> sditx_blank am" by auto
    ultimately have "f am (vm\<lparr>hfront_porch := hfront_porch vm + 1\<rparr>)
        (log @ [(vtc_blank vm, sditx_blank am, True)]) = Some r"
      using body by simp
    from IH [OF this] have "fst r = vm\<lparr>hfront_porch := hfront_porch vm + 1,
        hfront_porch := hfront_porch (fst r)\<rparr>" .
    then show ?thesis by simp
  next
    case False
    then show ?thesis using body by (auto split: if_splits)
  qed
qed

lemma blank_loop_frame:
  "blank_loop am vm log = Some (vm', log') \<Longrightarrow>
   vm' = vm\<lparr>hfront_porch := hfront_porch vm'\<rparr>"
  using blank_loop_frame_aux [of am vm log "(vm', log')"] by simp

text \<open>
  \<^verbatim>\<open>vtc_blank\<close> is even. When \<^verbatim>\<open>sditx_blank\<close> is \<^verbatim>\<open>0xFFFFFFFF\<close> the loop condition holds
  in every pass: the loop does not end.
\<close>

lemma even_word_not_max: "(x::32 word) * 2 \<noteq> - 1"
proof
  assume "x * 2 = - 1"
  then have "even (- 1 :: 32 word)" by (metis dvd_triv_right)
  then show False by simp
qed

lemma blank_loop_diverges:
  assumes "sditx_blank am = - 1"
  shows "blank_loop am vm log = None"
proof (rule ccontr)
  assume "blank_loop am vm log \<noteq> None"
  then obtain r where r: "blank_loop am vm log = Some r" by auto
  have "sditx_blank am \<noteq> - 1"
  proof (rule blank_loop.raw_induct [where P = "\<lambda>am vm log r. sditx_blank am \<noteq> - 1"])
    show "blank_loop am vm log = Some r" by fact
  next
    fix f :: "drm_display_mode \<Rightarrow> videomode \<Rightarrow> loop_log \<Rightarrow> (videomode \<times> loop_log) option"
    fix am vm log r
    assume IH: "\<And>am vm log r. f am vm log = Some r \<Longrightarrow> sditx_blank am \<noteq> - 1"
    assume body: "(if vtc_blank vm < sditx_blank am
      then f am
             (if vtc_blank vm \<noteq> sditx_blank am
              then vm\<lparr>hfront_porch := hfront_porch vm + 1\<rparr> else vm)
             (log @ [(vtc_blank vm, sditx_blank am,
                      vtc_blank vm \<noteq> sditx_blank am)])
      else Some (if vtc_blank vm \<noteq> sditx_blank am
                 then vm\<lparr>hfront_porch := hfront_porch vm + 1\<rparr> else vm,
                 log @ [(vtc_blank vm, sditx_blank am,
                         vtc_blank vm \<noteq> sditx_blank am)])) = Some r"
    show "sditx_blank am \<noteq> - 1"
    proof (cases "vtc_blank vm < sditx_blank am")
      case True
      then show ?thesis using body IH by (auto split: if_splits)
    next
      case False
      show ?thesis
      proof
        assume m: "sditx_blank am = - 1"
        have "vtc_blank vm = - 1"
          using False unfolding m by (meson word_n1_ge order_le_imp_less_or_eq)
        then show False
          using even_word_not_max [of "hfront_porch vm + hback_porch vm + hsync_len vm"]
          by (simp add: vtc_blank_def)
      qed
    qed
  qed
  then show False using assms by simp
qed

subsection \<open>Valid horizontal timings\<close>

lemma valid_htiming_uint:
  assumes "valid_htiming am"
  shows "uint (hdisplay am) \<le> uint (hsync_start am)"
    and "uint (hsync_start am) \<le> uint (hsync_end am)"
    and "uint (hsync_end am) \<le> uint (htotal am)"
    and "uint (htotal am) < 2147483648"
proof -
  have 0: "uint (hdisplay am) < 2147483648"
    using assms by (simp add: valid_htiming_def sle_nonneg)
  have 1: "uint (hdisplay am) \<le> uint (hsync_start am) \<and> uint (hsync_start am) < 2147483648"
    using assms 0 by (intro sle_mono) (simp_all add: valid_htiming_def)
  have 2: "uint (hsync_start am) \<le> uint (hsync_end am) \<and> uint (hsync_end am) < 2147483648"
    using assms 1 by (intro sle_mono) (simp_all add: valid_htiming_def)
  have 3: "uint (hsync_end am) \<le> uint (htotal am) \<and> uint (htotal am) < 2147483648"
    using assms 2 by (intro sle_mono) (simp_all add: valid_htiming_def)
  show "uint (hdisplay am) \<le> uint (hsync_start am)" using 1 by simp
  show "uint (hsync_start am) \<le> uint (hsync_end am)" using 2 by simp
  show "uint (hsync_end am) \<le> uint (htotal am)" using 3 by simp
  show "uint (htotal am) < 2147483648" using 3 by simp
qed

lemma valid_sditx_blank:
  assumes "valid_htiming am"
  shows "uint (sditx_blank am) = uint (htotal am) - uint (hdisplay am)"
proof -
  note v = valid_htiming_uint [OF assms]
  have a: "uint (hsync_start am - hdisplay am) = uint (hsync_start am) - uint (hdisplay am)"
    using v by (intro uint_diff)
  have b: "uint (hsync_end am - hsync_start am) = uint (hsync_end am) - uint (hsync_start am)"
    using v by (intro uint_diff)
  have c: "uint (htotal am - hsync_end am) = uint (htotal am) - uint (hsync_end am)"
    using v by (intro uint_diff)
  have "uint (sditx_blank am) =
      uint (hsync_start am - hdisplay am) + uint (hsync_end am - hsync_start am)
      + uint (htotal am - hsync_end am)"
    unfolding sditx_blank_def using a b c v uint_nonnegative [of "hdisplay am"]
    by (intro uint_sum3) linarith
  then show ?thesis using a b c by linarith
qed

lemma mode_set_videomode_h:
  "hfront_porch (mode_set_videomode am vm0) = int_div (hsync_start am - hdisplay am) 2"
  "hback_porch (mode_set_videomode am vm0) = int_div (htotal am - hsync_end am) 2"
  "hsync_len (mode_set_videomode am vm0) = int_div (hsync_end am - hsync_start am) 2"
  "hactive (mode_set_videomode am vm0) = int_div (hdisplay am) 2"
  by (simp_all add: mode_set_videomode_def Let_def)

lemma valid_porches:
  assumes "valid_htiming am"
  shows "uint (hfront_porch (mode_set_videomode am vm0))
           = (uint (hsync_start am) - uint (hdisplay am)) div 2"
    and "uint (hback_porch (mode_set_videomode am vm0))
           = (uint (htotal am) - uint (hsync_end am)) div 2"
    and "uint (hsync_len (mode_set_videomode am vm0))
           = (uint (hsync_end am) - uint (hsync_start am)) div 2"
proof -
  note v = valid_htiming_uint [OF assms]
  have a: "uint (hsync_start am - hdisplay am) = uint (hsync_start am) - uint (hdisplay am)"
    using v by (intro uint_diff)
  have b: "uint (hsync_end am - hsync_start am) = uint (hsync_end am) - uint (hsync_start am)"
    using v by (intro uint_diff)
  have c: "uint (htotal am - hsync_end am) = uint (htotal am) - uint (hsync_end am)"
    using v by (intro uint_diff)
  have lt: "uint (hsync_start am - hdisplay am) < 2147483648"
    "uint (hsync_end am - hsync_start am) < 2147483648"
    "uint (htotal am - hsync_end am) < 2147483648"
    using a b c v uint_nonnegative [of "hdisplay am"] by linarith+
  show "uint (hfront_porch (mode_set_videomode am vm0))
           = (uint (hsync_start am) - uint (hdisplay am)) div 2"
    using lt by (simp add: mode_set_videomode_h int_div2 a)
  show "uint (hback_porch (mode_set_videomode am vm0))
           = (uint (htotal am) - uint (hsync_end am)) div 2"
    using lt by (simp add: mode_set_videomode_h int_div2 c)
  show "uint (hsync_len (mode_set_videomode am vm0))
           = (uint (hsync_end am) - uint (hsync_start am)) div 2"
    using lt by (simp add: mode_set_videomode_h int_div2 b)
qed

lemma valid_vtc_blank:
  assumes "valid_htiming am"
  shows "uint (vtc_blank (mode_set_videomode am vm0)) =
    ((uint (hsync_start am) - uint (hdisplay am)) div 2
     + (uint (htotal am) - uint (hsync_end am)) div 2
     + (uint (hsync_end am) - uint (hsync_start am)) div 2) * 2"
proof -
  note v = valid_htiming_uint [OF assms]
  note p = valid_porches [OF assms, of vm0]
  let ?vm = "mode_set_videomode am vm0"
  let ?s = "hfront_porch ?vm + hback_porch ?vm + hsync_len ?vm"
  have s: "uint ?s = uint (hfront_porch ?vm) + uint (hback_porch ?vm) + uint (hsync_len ?vm)"
    using p v uint_nonnegative [of "hdisplay am"] by (intro uint_sum3) linarith
  have "uint (?s * 2) = uint ?s * 2"
    using s p v uint_nonnegative [of "hdisplay am"] by (intro uint_double) linarith
  then show ?thesis
    using s p by (simp add: vtc_blank_def)
qed

text \<open>
  For valid horizontal timings the blanking of the halved porches is at most 3 below the
  blanking of the mode, by the remainders of the three divisions.
\<close>

lemma valid_blank_gap:
  assumes "valid_htiming am"
  shows "uint (vtc_blank (mode_set_videomode am vm0)) \<le> uint (sditx_blank am)"
    and "uint (sditx_blank am) \<le> uint (vtc_blank (mode_set_videomode am vm0)) + 3"
    and "uint (sditx_blank am) < 2147483648"
    and "even (uint (vtc_blank (mode_set_videomode am vm0)))"
  using valid_htiming_uint [OF assms] valid_sditx_blank [OF assms]
    valid_vtc_blank [OF assms, of vm0] uint_nonnegative [of "hdisplay am"]
  by (simp_all, linarith+)


subsection \<open>The mode-set as a whole\<close>

lemma mode_set_videomode_vback:
  "vback_porch (mode_set_videomode am vm0) =
     (if flags am AND DRM_MODE_FLAG_INTERLACE \<noteq> 0
      then (if vtotal am = 1125 then 562 - vsync_end am
            else if vtotal am = 625 then 312 - vsync_end am
            else if vtotal am = 525 then 262 - vsync_end am
            else vback_porch vm0)
      else vtotal am - vsync_end am)"
  by (simp add: mode_set_videomode_def Let_def)

lemma mode_set_result:
  assumes "drm_vid_ep_encoder_atomic_mode_set tbl ep am0 vm0 = Some (ep', am, vm, log, ev)"
  shows "am = mode_set_sdi_timing ep tbl am0"
    and "\<exists>vm1. blank_loop am (mode_set_videomode am vm0) [] = Some (vm1, log)
           \<and> vm = vm1\<lparr>pixelclock := scast (clock am * 1000)\<rparr>"
    and "ev = [Bridge_set_input (bridge ep) (hdisplay am0) (vdisplay am0) (in_fmt_prop_val ep),
               Bridge_set_output (bridge ep) (width_out_prop_val ep) (height_out_prop_val ep)
                 (out_fmt_prop_val ep),
               Bridge_enable (bridge ep)]
              @ drm_vid_ep_setup @ drm_vid_ep_set_config_parameters ep @ [Stc_sig vm]"
  using assms
  by (auto simp add: drm_vid_ep_encoder_atomic_mode_set_def Let_def split: option.splits)

lemma mode_set_returns:
  assumes "mode_set_sdi_timing ep tbl am0 = am"
    and "blank_loop am (mode_set_videomode am vm0) [] = Some (vm1, log)"
  shows "\<exists>ep' ev. drm_vid_ep_encoder_atomic_mode_set tbl ep am0 vm0 =
           Some (ep', am, vm1\<lparr>pixelclock := scast (clock am * 1000)\<rparr>, log, ev)"
  using assms by (simp add: drm_vid_ep_encoder_atomic_mode_set_def Let_def)

lemma sdi_modes_scan_find:
  "sdi_modes_scan ep tbl am =
     (case find (sdi_mode_match ep am) tbl of
        None \<Rightarrow> am | Some m \<Rightarrow> sdi_timing_memcpy am m)"
  by (induction tbl) simp_all

lemma sdi_timing_memcpy_all:
  "sdi_timing_memcpy (am :: drm_display_mode) (m :: drm_display_mode) = m\<lparr>vrefresh := vrefresh am\<rparr>"
  by (simp add: sdi_timing_memcpy_def)

text \<open>
  The four ways the loop runs on valid horizontal timings, by the difference \<open>d\<close> of
  \<^verbatim>\<open>sditx_blank\<close> and the first \<^verbatim>\<open>vtc_blank\<close>.
\<close>

lemma valid_loop_cases:
  assumes "valid_htiming am"
  obtains
    (d0) "uint (sditx_blank am) = uint (vtc_blank (mode_set_videomode am vmi))"
      "blank_loop am (mode_set_videomode am vmi) [] =
         Some (mode_set_videomode am vmi,
               [(vtc_blank (mode_set_videomode am vmi), sditx_blank am, False)])"
  | (d1) "uint (sditx_blank am) = uint (vtc_blank (mode_set_videomode am vmi)) + 1"
      "blank_loop am (mode_set_videomode am vmi) [] =
         Some ((mode_set_videomode am vmi)
                 \<lparr>hfront_porch := hfront_porch (mode_set_videomode am vmi) + 2\<rparr>,
               [(vtc_blank (mode_set_videomode am vmi), sditx_blank am, True),
                (vtc_blank (mode_set_videomode am vmi) + 2, sditx_blank am, True)])"
  | (d2) "uint (sditx_blank am) = uint (vtc_blank (mode_set_videomode am vmi)) + 2"
      "blank_loop am (mode_set_videomode am vmi) [] =
         Some ((mode_set_videomode am vmi)
                 \<lparr>hfront_porch := hfront_porch (mode_set_videomode am vmi) + 1\<rparr>,
               [(vtc_blank (mode_set_videomode am vmi), sditx_blank am, True),
                (vtc_blank (mode_set_videomode am vmi) + 2, sditx_blank am, False)])"
  | (d3) "uint (sditx_blank am) = uint (vtc_blank (mode_set_videomode am vmi)) + 3"
      "blank_loop am (mode_set_videomode am vmi) [] =
         Some ((mode_set_videomode am vmi)
                 \<lparr>hfront_porch := hfront_porch (mode_set_videomode am vmi) + 3\<rparr>,
               [(vtc_blank (mode_set_videomode am vmi), sditx_blank am, True),
                (vtc_blank (mode_set_videomode am vmi) + 2, sditx_blank am, True),
                (vtc_blank (mode_set_videomode am vmi) + 4, sditx_blank am, True)])"
proof -
  note g = valid_blank_gap(1,2) [OF assms, of vmi] valid_blank_gap(3) [OF assms]
    valid_blank_gap(4) [OF assms, of vmi]
  let ?V = "uint (vtc_blank (mode_set_videomode am vmi))"
  let ?S = "uint (sditx_blank am)"
  from g(1,2) consider "?S = ?V" | "?S = ?V + 1" | "?S = ?V + 2" | "?S = ?V + 3"
    by linarith
  then show thesis
  proof cases
    case 1
    then show thesis using d0 loop_d0 [of am "mode_set_videomode am vmi" "[]"] by simp
  next
    case 2
    then show thesis using d1 g(3) loop_d1 [of am "mode_set_videomode am vmi" "[]"] by simp
  next
    case 3
    then show thesis using d2 g(3) loop_d2 [of am "mode_set_videomode am vmi" "[]"] by simp
  next
    case 4
    then show thesis using d3 g(3) loop_d3 [of am "mode_set_videomode am vmi" "[]"] by simp
  qed
qed

lemma valid_hfront_porch_plus:
  assumes "valid_htiming am" and "uint (k::32 word) \<le> 3"
  shows "uint (hfront_porch (mode_set_videomode am vm0) + k)
           = uint (hfront_porch (mode_set_videomode am vm0)) + uint k"
proof -
  note v = valid_htiming_uint [OF assms(1)]
  note p = valid_porches [OF assms(1), of vm0]
  have "uint (hfront_porch (mode_set_videomode am vm0)) + uint k < 4294967296"
    using p v assms(2) uint_nonnegative [of "hdisplay am"] by linarith
  then show ?thesis
    using uint_add_lem [where x = "hfront_porch (mode_set_videomode am vm0)" and y = k]
    by simp
qed

lemma valid_blank_sum:
  assumes "valid_htiming am"
  shows "(uint (hfront_porch (mode_set_videomode am vm0))
          + uint (hback_porch (mode_set_videomode am vm0))
          + uint (hsync_len (mode_set_videomode am vm0))) * 2
         = uint (vtc_blank (mode_set_videomode am vm0))"
  using valid_porches [OF assms, of vm0] valid_vtc_blank [OF assms, of vm0] by simp

text \<open>What the loop returns on valid horizontal timings: the blanking.\<close>

lemma blank_loop_valid_blanking:
  assumes "valid_htiming am"
  shows "\<exists>vm log.
     blank_loop am (mode_set_videomode am vm0) [] = Some (vm, log)
     \<and> hback_porch vm = hback_porch (mode_set_videomode am vm0)
     \<and> hsync_len vm = hsync_len (mode_set_videomode am vm0)
     \<and> uint (sditx_blank am)
         \<le> (uint (hfront_porch vm) + uint (hback_porch vm) + uint (hsync_len vm)) * 2
     \<and> (uint (hfront_porch vm) + uint (hback_porch vm) + uint (hsync_len vm)) * 2
         = uint (sditx_blank am) + (if even (uint (sditx_blank am)) then 0 else 3)
     \<and> (\<forall>(v, s, inc) \<in> set log. s = sditx_blank am \<and> inc = (v \<noteq> s))
     \<and> uint (hfront_porch vm) = uint (hfront_porch (mode_set_videomode am vm0))
           + int (length (filter (\<lambda>(v, s, inc). inc) log))"
proof -
  note g = valid_blank_gap(1,2) [OF assms, of vm0] valid_blank_gap(3) [OF assms]
    valid_blank_gap(4) [OF assms, of vm0]
  note b = valid_blank_sum [OF assms, of vm0]
  note p1 = valid_hfront_porch_plus [OF assms, of 1 vm0]
  note p2 = valid_hfront_porch_plus [OF assms, of 2 vm0]
  note p3 = valid_hfront_porch_plus [OF assms, of 3 vm0]
  let ?vm = "mode_set_videomode am vm0"
  from assms show ?thesis
  proof (cases rule: valid_loop_cases [where vmi = vm0])
    case d0
    have "vtc_blank ?vm = sditx_blank am" using d0(1) by (simp add: word_uint_eq_iff)
    then show ?thesis using d0 g b by simp
  next
    case d1
    have n: "vtc_blank ?vm \<noteq> sditx_blank am" "vtc_blank ?vm + 2 \<noteq> sditx_blank am"
      using d1(1) g uint_plus2 [of "vtc_blank ?vm"] by (auto simp: word_uint_eq_iff)
    have o: "odd (uint (sditx_blank am))" using d1(1) g(4) by simp
    show ?thesis using d1 g b p2 n o by simp
  next
    case d2
    have n: "vtc_blank ?vm \<noteq> sditx_blank am" "vtc_blank ?vm + 2 = sditx_blank am"
      using d2(1) g uint_plus2 [of "vtc_blank ?vm"] by (auto simp: word_uint_eq_iff)
    have o: "even (uint (sditx_blank am))" using d2(1) g(4) by simp
    show ?thesis using d2 g b p1 n o by simp
  next
    case d3
    have n: "vtc_blank ?vm \<noteq> sditx_blank am" "vtc_blank ?vm + 2 \<noteq> sditx_blank am"
      "vtc_blank ?vm + 4 \<noteq> sditx_blank am"
      using d3(1) g uint_plus2 [of "vtc_blank ?vm"] uint_plus4 [of "vtc_blank ?vm"]
      by (auto simp: word_uint_eq_iff)
    have o: "odd (uint (sditx_blank am))" using d3(1) g(4) by simp
    show ?thesis using d3 g b p3 n o by simp
  qed
qed


text \<open>What the loop returns on valid horizontal timings: the passes.\<close>

lemma blank_loop_valid_iterations:
  assumes "valid_htiming am"
  shows "\<exists>vm log.
     blank_loop am (mode_set_videomode am vm0) [] = Some (vm, log)
     \<and> int (length log) \<le> (uint (sditx_blank am) + 1) div 2 + 1
     \<and> length log \<le> 3
     \<and> int (length (filter (\<lambda>(v, s, inc). v < s) log)) \<le> (uint (sditx_blank am) + 1) div 2
     \<and> (\<forall>i. Suc i < length log \<longrightarrow>
           uint (fst (log ! Suc i)) = uint (fst (log ! i)) + 2 \<and> snd (snd (log ! i)))
     \<and> (\<forall>(v, s, inc) \<in> set log. s = sditx_blank am)"
proof -
  note g = valid_blank_gap(1,2) [OF assms, of vm0] valid_blank_gap(3) [OF assms]
    valid_blank_gap(4) [OF assms, of vm0]
  let ?vm = "mode_set_videomode am vm0"
  have nn: "0 \<le> uint (vtc_blank ?vm)" by simp
  from assms show ?thesis
  proof (cases rule: valid_loop_cases [where vmi = vm0])
    case d0
    have e: "vtc_blank ?vm = sditx_blank am" using d0(1) by (simp add: word_uint_eq_iff)
    have "0 \<le> (uint (sditx_blank am) + 1) div 2" using d0(1) nn by linarith
    then show ?thesis using d0(2) e by simp
  next
    case d1
    have u: "uint (vtc_blank ?vm + 2) = uint (vtc_blank ?vm) + 2"
      using d1(1) g by (intro uint_plus2) linarith
    have c: "1 \<le> (uint (sditx_blank am) + 1) div 2" using d1(1) nn by linarith
    have l: "vtc_blank ?vm < sditx_blank am" "\<not> vtc_blank ?vm + 2 < sditx_blank am"
      using d1(1) u by (simp_all add: word_less_def)
    show ?thesis using d1 u c l by (simp add: less_Suc_eq)
  next
    case d2
    have u: "uint (vtc_blank ?vm + 2) = uint (vtc_blank ?vm) + 2"
      using d2(1) g by (intro uint_plus2) linarith
    have c: "1 \<le> (uint (sditx_blank am) + 1) div 2" using d2(1) nn by linarith
    have l: "vtc_blank ?vm < sditx_blank am" "\<not> vtc_blank ?vm + 2 < sditx_blank am"
      using d2(1) u by (simp_all add: word_less_def)
    show ?thesis using d2 u c l by (simp add: less_Suc_eq)
  next
    case d3
    have u: "uint (vtc_blank ?vm + 2) = uint (vtc_blank ?vm) + 2"
      using d3(1) g by (intro uint_plus2) linarith
    have u4: "uint (vtc_blank ?vm + 4) = uint (vtc_blank ?vm) + 4"
      using d3(1) g by (intro uint_plus4) linarith
    have c: "2 \<le> (uint (sditx_blank am) + 1) div 2" using d3(1) nn by linarith
    have l: "vtc_blank ?vm < sditx_blank am" "vtc_blank ?vm + 2 < sditx_blank am"
      "\<not> vtc_blank ?vm + 4 < sditx_blank am"
      using d3(1) u u4 by (simp_all add: word_less_def)
    show ?thesis using d3 u u4 c l by (simp add: less_Suc_eq numeral_3_eq_3)
  qed
qed

subsection \<open>The blanking loop on valid horizontal timings\<close>

text \<open>
  Claim C1, as the code has it. Let the adjusted mode, as the derivation reads it
  (after the table step), have valid horizontal timings. Then the mode-set returns, and
  for the \<^verbatim>\<open>vm\<close> it hands to \<^verbatim>\<open>xlnx_stc_sig\<close>: the blanking recomputed from its three
  horizontal members, times 2, is at least \<^verbatim>\<open>sditx_blank\<close>, without wrap-around; it is
  \<^verbatim>\<open>sditx_blank\<close> when that is even and \<^verbatim>\<open>sditx_blank\<close> + 3 when it is odd; in every pass
  of the loop \<^verbatim>\<open>hfront_porch\<close> is incremented exactly when \<^verbatim>\<open>vtc_blank\<close> differs from
  \<^verbatim>\<open>sditx_blank\<close> (less or greater); and \<^verbatim>\<open>hfront_porch\<close> ends as its first value plus
  the number of those passes.
\<close>

theorem blanking_compensation:
  assumes "mode_set_sdi_timing ep tbl am0 = am" and "valid_htiming am"
  shows "\<exists>ep' vm log ev.
     drm_vid_ep_encoder_atomic_mode_set tbl ep am0 vm0 = Some (ep', am, vm, log, ev)
     \<and> uint (sditx_blank am)
         \<le> (uint (hfront_porch vm) + uint (hback_porch vm) + uint (hsync_len vm)) * 2
     \<and> (uint (hfront_porch vm) + uint (hback_porch vm) + uint (hsync_len vm)) * 2
         = uint (sditx_blank am) + (if even (uint (sditx_blank am)) then 0 else 3)
     \<and> (\<forall>(v, s, inc) \<in> set log. s = sditx_blank am \<and> inc = (v \<noteq> s))
     \<and> uint (hfront_porch vm) = uint (hfront_porch (mode_set_videomode am vm0))
           + int (length (filter (\<lambda>(v, s, inc). inc) log))"
proof -
  from blank_loop_valid_blanking [OF assms(2), of vm0] obtain vm1 log where
    l: "blank_loop am (mode_set_videomode am vm0) [] = Some (vm1, log)"
    and p: "uint (sditx_blank am)
         \<le> (uint (hfront_porch vm1) + uint (hback_porch vm1) + uint (hsync_len vm1)) * 2"
      "(uint (hfront_porch vm1) + uint (hback_porch vm1) + uint (hsync_len vm1)) * 2
         = uint (sditx_blank am) + (if even (uint (sditx_blank am)) then 0 else 3)"
      "\<forall>(v, s, inc) \<in> set log. s = sditx_blank am \<and> inc = (v \<noteq> s)"
      "uint (hfront_porch vm1) = uint (hfront_porch (mode_set_videomode am vm0))
           + int (length (filter (\<lambda>(v, s, inc). inc) log))"
    by blast
  from mode_set_returns [OF assms(1) l] obtain ep' ev where
    r: "drm_vid_ep_encoder_atomic_mode_set tbl ep am0 vm0 =
           Some (ep', am, vm1\<lparr>pixelclock := scast (clock am * 1000)\<rparr>, log, ev)"
    by blast
  let ?vm = "vm1\<lparr>pixelclock := scast (clock am * 1000)\<rparr>"
  have "hfront_porch ?vm = hfront_porch vm1" "hback_porch ?vm = hback_porch vm1"
    "hsync_len ?vm = hsync_len vm1" by simp_all
  with r p show ?thesis by (intro exI [of _ ep'] exI [of _ ?vm] exI [of _ log] exI [of _ ev]) simp
qed

text \<open>
  On 1920x1080 with a line of 2201 pixels (no table, the example device): the timings
  are valid and the mode-set returns as the theorem says.
\<close>

theorem blanking_compensation_witness:
  "mode_set_sdi_timing example_ep [] mode_1080p_odd = mode_1080p_odd
   \<and> valid_htiming mode_1080p_odd
   \<and> (\<exists>ep' vm log ev.
     drm_vid_ep_encoder_atomic_mode_set [] example_ep mode_1080p_odd zero_vm
       = Some (ep', mode_1080p_odd, vm, log, ev)
     \<and> uint (sditx_blank mode_1080p_odd)
         \<le> (uint (hfront_porch vm) + uint (hback_porch vm) + uint (hsync_len vm)) * 2
     \<and> (uint (hfront_porch vm) + uint (hback_porch vm) + uint (hsync_len vm)) * 2
         = uint (sditx_blank mode_1080p_odd)
           + (if even (uint (sditx_blank mode_1080p_odd)) then 0 else 3)
     \<and> (\<forall>(v, s, inc) \<in> set log. s = sditx_blank mode_1080p_odd \<and> inc = (v \<noteq> s))
     \<and> uint (hfront_porch vm) = uint (hfront_porch (mode_set_videomode mode_1080p_odd zero_vm))
           + int (length (filter (\<lambda>(v, s, inc). inc) log)))"
proof -
  have t: "mode_set_sdi_timing example_ep [] mode_1080p_odd = mode_1080p_odd"
    by (simp add: mode_set_sdi_timing_def)
  have v: "valid_htiming mode_1080p_odd" by code_simp
  show ?thesis using t v blanking_compensation [OF t v, of zero_vm] by blast
qed

text \<open>
  The claim has \<^verbatim>\<open>hfront_porch\<close> incremented only while the derived blanking is less
  than the source blanking. On 1920x1080 with a line of 2201 pixels the timings are
  valid, \<^verbatim>\<open>sditx_blank\<close> is 281, and the loop makes two passes: in the first
  \<^verbatim>\<open>vtc_blank\<close> is 280 and \<^verbatim>\<open>hfront_porch\<close> is incremented, in the second \<^verbatim>\<open>vtc_blank\<close> is
  282, greater than 281, and \<^verbatim>\<open>hfront_porch\<close> is incremented again, from 45 to 46.
\<close>

theorem hfront_porch_increment_counterexample:
  "valid_htiming mode_1080p_odd
   \<and> hfront_porch (mode_set_videomode mode_1080p_odd zero_vm) = 44
   \<and> blank_loop mode_1080p_odd (mode_set_videomode mode_1080p_odd zero_vm) [] =
       Some ((mode_set_videomode mode_1080p_odd zero_vm)\<lparr>hfront_porch := 46\<rparr>,
             [(280, 281, True), (282, 281, True)])"
  by code_simp

text \<open>
  Claim C2, as the code has it. Let the adjusted mode, as the derivation reads it, have
  valid horizontal timings. Then the loop ends and the mode-set returns. The loop body
  runs at most \<open>\<lceil>sditx_blank / 2\<rceil> + 1\<close> times, and at most 3 times; the loop
  condition holds in at most \<open>\<lceil>sditx_blank / 2\<rceil>\<close> of these passes. From each pass to
  the next \<^verbatim>\<open>hfront_porch\<close> is incremented and \<^verbatim>\<open>vtc_blank\<close> grows by exactly 2, and
  \<^verbatim>\<open>sditx_blank\<close> is the same in all passes.
\<close>

theorem blank_loop_terminates:
  assumes "mode_set_sdi_timing ep tbl am0 = am" and "valid_htiming am"
  shows "\<exists>ep' vm log ev.
     drm_vid_ep_encoder_atomic_mode_set tbl ep am0 vm0 = Some (ep', am, vm, log, ev)
     \<and> int (length log) \<le> (uint (sditx_blank am) + 1) div 2 + 1
     \<and> length log \<le> 3
     \<and> int (length (filter (\<lambda>(v, s, inc). v < s) log)) \<le> (uint (sditx_blank am) + 1) div 2
     \<and> (\<forall>i. Suc i < length log \<longrightarrow>
           uint (fst (log ! Suc i)) = uint (fst (log ! i)) + 2 \<and> snd (snd (log ! i)))
     \<and> (\<forall>(v, s, inc) \<in> set log. s = sditx_blank am)"
proof -
  from blank_loop_valid_iterations [OF assms(2), of vm0] obtain vm1 log where
    l: "blank_loop am (mode_set_videomode am vm0) [] = Some (vm1, log)"
    and p: "int (length log) \<le> (uint (sditx_blank am) + 1) div 2 + 1"
      "length log \<le> 3"
      "int (length (filter (\<lambda>(v, s, inc). v < s) log)) \<le> (uint (sditx_blank am) + 1) div 2"
      "\<forall>i. Suc i < length log \<longrightarrow>
           uint (fst (log ! Suc i)) = uint (fst (log ! i)) + 2 \<and> snd (snd (log ! i))"
      "\<forall>(v, s, inc) \<in> set log. s = sditx_blank am"
    by blast
  from mode_set_returns [OF assms(1) l] obtain ep' ev where
    "drm_vid_ep_encoder_atomic_mode_set tbl ep am0 vm0 =
           Some (ep', am, vm1\<lparr>pixelclock := scast (clock am * 1000)\<rparr>, log, ev)"
    by blast
  with p show ?thesis by blast
qed

text \<open>
  On 1920x1080 with porches and sync of one pixel each (no table, the example device).
\<close>

theorem blank_loop_terminates_witness:
  "mode_set_sdi_timing example_ep [] mode_narrow = mode_narrow
   \<and> valid_htiming mode_narrow
   \<and> (\<exists>ep' vm log ev.
     drm_vid_ep_encoder_atomic_mode_set [] example_ep mode_narrow zero_vm
       = Some (ep', mode_narrow, vm, log, ev)
     \<and> int (length log) \<le> (uint (sditx_blank mode_narrow) + 1) div 2 + 1
     \<and> length log \<le> 3
     \<and> int (length (filter (\<lambda>(v, s, inc). v < s) log))
         \<le> (uint (sditx_blank mode_narrow) + 1) div 2
     \<and> (\<forall>i. Suc i < length log \<longrightarrow>
           uint (fst (log ! Suc i)) = uint (fst (log ! i)) + 2 \<and> snd (snd (log ! i)))
     \<and> (\<forall>(v, s, inc) \<in> set log. s = sditx_blank mode_narrow))"
proof -
  have t: "mode_set_sdi_timing example_ep [] mode_narrow = mode_narrow"
    by (simp add: mode_set_sdi_timing_def)
  have v: "valid_htiming mode_narrow" by code_simp
  show ?thesis using t v blank_loop_terminates [OF t v, of zero_vm] by blast
qed

text \<open>
  The claim bounds the passes by \<open>\<lceil>sditx_blank / 2\<rceil>\<close> for ordered timings. With porches
  and sync of one pixel each the timings are valid, \<^verbatim>\<open>sditx_blank\<close> is 3 and the bound
  is 2, and the loop body runs 3 times, incrementing \<^verbatim>\<open>hfront_porch\<close> each time. With
  the ordered timings \<open>INT_MIN \<le> 0 \<le> 0 \<le> INT_MAX\<close> \<^verbatim>\<open>sditx_blank\<close> is \<^verbatim>\<open>0xFFFFFFFF\<close> and
  the loop does not end.
\<close>

theorem blank_loop_iterations_counterexample:
  "valid_htiming mode_narrow
   \<and> (uint (sditx_blank mode_narrow) + 1) div 2 = 2
   \<and> blank_loop mode_narrow (mode_set_videomode mode_narrow zero_vm) [] =
       Some ((mode_set_videomode mode_narrow zero_vm)\<lparr>hfront_porch := 3\<rparr>,
             [(0, 3, True), (2, 3, True), (4, 3, True)])
   \<and> hdisplay mode_negative \<le>s hsync_start mode_negative
   \<and> hsync_start mode_negative \<le>s hsync_end mode_negative
   \<and> hsync_end mode_negative \<le>s htotal mode_negative
   \<and> blank_loop mode_negative (mode_set_videomode mode_negative zero_vm) [] = None"
proof -
  have a: "valid_htiming mode_narrow
   \<and> (uint (sditx_blank mode_narrow) + 1) div 2 = 2
   \<and> blank_loop mode_narrow (mode_set_videomode mode_narrow zero_vm) [] =
       Some ((mode_set_videomode mode_narrow zero_vm)\<lparr>hfront_porch := 3\<rparr>,
             [(0, 3, True), (2, 3, True), (4, 3, True)])"
    by code_simp
  have b: "hdisplay mode_negative \<le>s hsync_start mode_negative
   \<and> hsync_start mode_negative \<le>s hsync_end mode_negative
   \<and> hsync_end mode_negative \<le>s htotal mode_negative"
    by code_simp
  have "sditx_blank mode_negative = - 1"
    by (simp add: sditx_blank_def mode_negative_def mode_1080p_def)
  then have "blank_loop mode_negative (mode_set_videomode mode_negative zero_vm) [] = None"
    by (rule blank_loop_diverges)
  with a b show ?thesis by simp
qed


subsection \<open>The vertical back porch\<close>

text \<open>The mode-set on the 3840x2160 mode, the example device and an empty table.\<close>

lemma mode_2160p_run:
  "drm_vid_ep_encoder_atomic_mode_set [] example_ep mode_2160p zero_vm =
     Some (example_ep\<lparr>video_mode := (video_mode example_ep)
             \<lparr>vdisplay := 2160, hdisplay := 3840, vrefresh := 67, flags := 0\<rparr>\<rparr>,
       mode_2160p,
       \<lparr>pixelclock = 594000000, hactive = 1920, hfront_porch = 24, hback_porch = 48,
         hsync_len = 16, vactive = 2160, vfront_porch = 8, vback_porch = 46, vsync_len = 8,
         vm_flags = 0\<rparr>,
       [(176, 176, False)],
       [Bridge_set_input 200 3840 2160 0, Bridge_set_output 200 3840 2160 0, Bridge_enable 200,
        Writel WREG_IRQ_MASK 6, Writel WREG_IRQ_ENABLE 1, Stc_reset,
        Writel WREG_SDI_MODE 5, Writel WREG_SDI_IS_FRAC 0,
        Stc_sig \<lparr>pixelclock = 594000000, hactive = 1920, hfront_porch = 24, hback_porch = 48,
         hsync_len = 16, vactive = 2160, vfront_porch = 8, vback_porch = 46, vsync_len = 8,
         vm_flags = 0\<rparr>])"
  by code_simp

text \<open>
  Claim C5. For a mode that is not interlaced the derived vertical back porch is
  \<open>vtotal - vsync_end\<close> (as \<^verbatim>\<open>u32\<close>; the difference of the two \<^verbatim>\<open>int\<close>s itself when
  \<open>0 \<le> vsync_end \<le> vtotal\<close>). For an interlaced mode of 1125, 625 or 525 lines it is
  562, 312 or 262 minus \<open>vsync_end\<close>. The loop does not change it: when the mode-set
  returns, the \<^verbatim>\<open>vm\<close> handed to \<^verbatim>\<open>xlnx_stc_sig\<close>, the last event, holds that value. The mode
  is the adjusted mode as the derivation reads it.
\<close>

theorem vback_porch_derivation:
  "(flags am AND DRM_MODE_FLAG_INTERLACE = 0 \<longrightarrow>
      vback_porch (mode_set_videomode am vm0) = vtotal am - vsync_end am)
   \<and> (flags am AND DRM_MODE_FLAG_INTERLACE = 0 \<and> 0 \<le>s vsync_end am
        \<and> vsync_end am \<le>s vtotal am \<longrightarrow>
      uint (vback_porch (mode_set_videomode am vm0)) = sint (vtotal am) - sint (vsync_end am))
   \<and> (flags am AND DRM_MODE_FLAG_INTERLACE \<noteq> 0 \<and> vtotal am = 1125 \<longrightarrow>
      vback_porch (mode_set_videomode am vm0) = 562 - vsync_end am)
   \<and> (flags am AND DRM_MODE_FLAG_INTERLACE \<noteq> 0 \<and> vtotal am = 625 \<longrightarrow>
      vback_porch (mode_set_videomode am vm0) = 312 - vsync_end am)
   \<and> (flags am AND DRM_MODE_FLAG_INTERLACE \<noteq> 0 \<and> vtotal am = 525 \<longrightarrow>
      vback_porch (mode_set_videomode am vm0) = 262 - vsync_end am)
   \<and> (drm_vid_ep_encoder_atomic_mode_set tbl ep am0 vm0 = Some (ep', am, vm, log, ev) \<longrightarrow>
      vback_porch vm = vback_porch (mode_set_videomode am vm0) \<and> last ev = Stc_sig vm)"
proof (intro conjI impI)
  assume a: "flags am AND DRM_MODE_FLAG_INTERLACE = 0 \<and> 0 \<le>s vsync_end am
      \<and> vsync_end am \<le>s vtotal am"
  then have 0: "uint (vsync_end am) < 2147483648" by (simp add: sle_nonneg)
  then have 1: "uint (vsync_end am) \<le> uint (vtotal am) \<and> uint (vtotal am) < 2147483648"
    using a by (intro sle_mono) simp_all
  then have "uint (vtotal am - vsync_end am) = uint (vtotal am) - uint (vsync_end am)"
    by (intro uint_diff) simp
  moreover have "sint (vtotal am) = uint (vtotal am)" "sint (vsync_end am) = uint (vsync_end am)"
    using 0 1 by (simp_all add: sint32_pos)
  ultimately show "uint (vback_porch (mode_set_videomode am vm0))
      = sint (vtotal am) - sint (vsync_end am)"
    using a by (simp add: mode_set_videomode_vback)
next
  assume r: "drm_vid_ep_encoder_atomic_mode_set tbl ep am0 vm0 = Some (ep', am, vm, log, ev)"
  from mode_set_result(2) [OF r] obtain vm1 where
    l: "blank_loop am (mode_set_videomode am vm0) [] = Some (vm1, log)"
    and v: "vm = vm1\<lparr>pixelclock := scast (clock am * 1000)\<rparr>" by blast
  from blank_loop_frame [OF l] have "vback_porch vm1 = vback_porch (mode_set_videomode am vm0)"
    by (metis videomode.select_convs(8) videomode.surjective videomode.update_convs(3))
  then show "vback_porch vm = vback_porch (mode_set_videomode am vm0)" using v by simp
  show "last ev = Stc_sig vm" using mode_set_result(3) [OF r] by simp
qed (simp_all add: mode_set_videomode_vback)

text \<open>
  On the 3840x2160 mode (not interlaced) the back porch is 2222 - 2176 = 46, also in the
  \<^verbatim>\<open>vm\<close> the mode-set hands on; on the interlaced mode of 1125 lines it is
  562 - 547 = 15.
\<close>

theorem vback_porch_derivation_witness:
  "flags mode_2160p AND DRM_MODE_FLAG_INTERLACE = 0
   \<and> 0 \<le>s vsync_end mode_2160p \<and> vsync_end mode_2160p \<le>s vtotal mode_2160p
   \<and> vback_porch (mode_set_videomode mode_2160p zero_vm) = 46
   \<and> uint (vback_porch (mode_set_videomode mode_2160p zero_vm)) = 46
   \<and> flags mode_1080i AND DRM_MODE_FLAG_INTERLACE \<noteq> 0 \<and> vtotal mode_1080i = 1125
   \<and> vback_porch (mode_set_videomode mode_1080i zero_vm) = 15
   \<and> (\<exists>ep' vm log ev.
        drm_vid_ep_encoder_atomic_mode_set [] example_ep mode_2160p zero_vm
          = Some (ep', mode_2160p, vm, log, ev)
        \<and> vback_porch vm = 46 \<and> last ev = Stc_sig vm)"
proof -
  have p: "flags mode_2160p AND DRM_MODE_FLAG_INTERLACE = 0"
    "0 \<le>s vsync_end mode_2160p" "vsync_end mode_2160p \<le>s vtotal mode_2160p"
    "vtotal mode_2160p - vsync_end mode_2160p = 46"
    "sint (vtotal mode_2160p) - sint (vsync_end mode_2160p) = 46"
    by (simp_all add: mode_2160p_def word_sle_eq)
  have i: "flags mode_1080i AND DRM_MODE_FLAG_INTERLACE \<noteq> 0" "vtotal mode_1080i = 1125"
    "562 - vsync_end mode_1080i = 15"
    by (simp_all add: mode_1080i_def)
  let ?VM = "\<lparr>pixelclock = 594000000, hactive = 1920, hfront_porch = 24, hback_porch = 48,
         hsync_len = 16, vactive = 2160, vfront_porch = 8, vback_porch = 46, vsync_len = 8,
         vm_flags = 0\<rparr>"
  let ?EP = "example_ep\<lparr>video_mode := (video_mode example_ep)
             \<lparr>vdisplay := 2160, hdisplay := 3840, vrefresh := 67, flags := 0\<rparr>\<rparr>"
  let ?EV = "[Bridge_set_input 200 3840 2160 0, Bridge_set_output 200 3840 2160 0,
        Bridge_enable 200, Writel WREG_IRQ_MASK 6, Writel WREG_IRQ_ENABLE 1, Stc_reset,
        Writel WREG_SDI_MODE 5, Writel WREG_SDI_IS_FRAC 0, Stc_sig ?VM]"
  have r: "drm_vid_ep_encoder_atomic_mode_set [] example_ep mode_2160p zero_vm
      = Some (?EP, mode_2160p, ?VM, [(176, 176, False)], ?EV)"
    by (rule mode_2160p_run)
  note t = vback_porch_derivation [of mode_2160p zero_vm "[]" example_ep mode_2160p
      ?EP ?VM "[(176, 176, False)]" ?EV]
  note u = vback_porch_derivation [of mode_1080i zero_vm "[]" example_ep mode_2160p
      ?EP ?VM "[(176, 176, False)]" ?EV]
  from t have t1: "vback_porch (mode_set_videomode mode_2160p zero_vm) = 46"
    "uint (vback_porch (mode_set_videomode mode_2160p zero_vm)) = 46"
    using p by simp_all
  from u have u1: "vback_porch (mode_set_videomode mode_1080i zero_vm) = 15"
    using i by simp
  from t r have "vback_porch ?VM = vback_porch (mode_set_videomode mode_2160p zero_vm)
      \<and> last ?EV = Stc_sig ?VM" by blast
  with r t1 have "\<exists>ep' vm log ev.
        drm_vid_ep_encoder_atomic_mode_set [] example_ep mode_2160p zero_vm
          = Some (ep', mode_2160p, vm, log, ev)
        \<and> vback_porch vm = 46 \<and> last ev = Stc_sig vm"
    by (intro exI [of _ ?EP] exI [of _ ?VM] exI [of _ "[(176, 176, False)]"] exI [of _ ?EV])
      simp
  with p i t1 u1 show ?thesis by simp
qed

text \<open>
  An interlaced mode whose line count is not 1125, 625 or 525: no branch assigns
  \<^verbatim>\<open>vm.vback_porch\<close>, and the value handed on is the one the uninitialised local held.
\<close>

lemma vback_porch_unassigned:
  assumes "flags am AND DRM_MODE_FLAG_INTERLACE \<noteq> 0"
    and "vtotal am \<noteq> 1125" "vtotal am \<noteq> 625" "vtotal am \<noteq> 525"
  shows "vback_porch (mode_set_videomode am vm0) = vback_porch vm0"
  using assms by (simp add: mode_set_videomode_vback)

text \<open>
  Claim C9, at the interlaced 1080-line mode of 1250 lines. The claim has two runs on
  the same inputs produce the same back porch. Two runs of the mode-set on the same
  table, device and mode return, one with the back porch 0 and one with the back porch
  77: the value is what the stack held where \<^verbatim>\<open>vm\<close> is placed.
\<close>

theorem vback_porch_uninitialised:
  "(case drm_vid_ep_encoder_atomic_mode_set [] example_ep mode_1080i_1250 zero_vm of
      Some (ep', am, vm, log, ev) \<Rightarrow> vback_porch vm = 0 | None \<Rightarrow> False)
   \<and> (case drm_vid_ep_encoder_atomic_mode_set [] example_ep mode_1080i_1250
            (zero_vm\<lparr>vback_porch := 77\<rparr>) of
      Some (ep', am, vm, log, ev) \<Rightarrow> vback_porch vm = 77 | None \<Rightarrow> False)"
  by code_simp


subsection \<open>The table of SDI timings\<close>

text \<open>
  Claim C6, as the code has it. Without a bridge the adjusted mode is left as it is,
  whatever the table holds. With a bridge and no entry for (output width, output
  height, refresh rate) it is left as it is. With a bridge and such an entry, the first
  one in table order is copied over the twelve members from \<^verbatim>\<open>clock\<close> to \<^verbatim>\<open>flags\<close>, which
  include \<^verbatim>\<open>hdisplay\<close> and \<^verbatim>\<open>vdisplay\<close>: the adjusted mode becomes the entry, but for its
  own \<^verbatim>\<open>vrefresh\<close>, and its active size becomes the bridge's output size. The derivation
  runs on the mode so changed.
\<close>

theorem sdi_timing_override:
  "(bridge ep = 0 \<longrightarrow> mode_set_sdi_timing ep tbl am0 = am0)
   \<and> (bridge ep \<noteq> 0 \<and> find (sdi_mode_match ep am0) tbl = None \<longrightarrow>
        mode_set_sdi_timing ep tbl am0 = am0)
   \<and> (bridge ep \<noteq> 0 \<and> find (sdi_mode_match ep am0) tbl = Some m \<longrightarrow>
        mode_set_sdi_timing ep tbl am0 = m\<lparr>vrefresh := vrefresh am0\<rparr>
        \<and> hdisplay (mode_set_sdi_timing ep tbl am0) = width_out_prop_val ep
        \<and> vdisplay (mode_set_sdi_timing ep tbl am0) = height_out_prop_val ep)
   \<and> (drm_vid_ep_encoder_atomic_mode_set tbl ep am0 vm0 = Some (ep', am, vm, log, ev) \<longrightarrow>
        am = mode_set_sdi_timing ep tbl am0
        \<and> (\<exists>vm1. blank_loop am (mode_set_videomode am vm0) [] = Some (vm1, log)
              \<and> vm = vm1\<lparr>pixelclock := scast (clock am * 1000)\<rparr>))"
proof (intro conjI impI)
  assume "bridge ep = 0"
  then show "mode_set_sdi_timing ep tbl am0 = am0" by (simp add: mode_set_sdi_timing_def)
next
  assume "bridge ep \<noteq> 0 \<and> find (sdi_mode_match ep am0) tbl = None"
  then show "mode_set_sdi_timing ep tbl am0 = am0"
    by (simp add: mode_set_sdi_timing_def sdi_modes_scan_find)
next
  assume a: "bridge ep \<noteq> 0 \<and> find (sdi_mode_match ep am0) tbl = Some m"
  then show e: "mode_set_sdi_timing ep tbl am0 = m\<lparr>vrefresh := vrefresh am0\<rparr>"
    by (simp add: mode_set_sdi_timing_def sdi_modes_scan_find sdi_timing_memcpy_all)
  from a have "sdi_mode_match ep am0 m" by (auto simp: find_Some_iff)
  then show "hdisplay (mode_set_sdi_timing ep tbl am0) = width_out_prop_val ep"
    and "vdisplay (mode_set_sdi_timing ep tbl am0) = height_out_prop_val ep"
    using e by (simp_all add: sdi_mode_match_def)
next
  assume r: "drm_vid_ep_encoder_atomic_mode_set tbl ep am0 vm0 = Some (ep', am, vm, log, ev)"
  show "am = mode_set_sdi_timing ep tbl am0" by (rule mode_set_result(1) [OF r])
  show "\<exists>vm1. blank_loop am (mode_set_videomode am vm0) [] = Some (vm1, log)
              \<and> vm = vm1\<lparr>pixelclock := scast (clock am * 1000)\<rparr>"
    by (rule mode_set_result(2) [OF r])
qed

text \<open>
  The example device with an output of 1280x720, a table that holds the 1280x720 entry
  and the adjusted mode 1920x1080 at 60 Hz: with the bridge the mode becomes the entry;
  without it, and with an empty table, it stays; and the mode-set on the 3840x2160 mode
  with an empty table derives from the mode it was given.
\<close>

theorem sdi_timing_override_witness:
  "bridge (example_ep\<lparr>width_out_prop_val := 1280, height_out_prop_val := 720\<rparr>) \<noteq> 0
   \<and> find (sdi_mode_match (example_ep\<lparr>width_out_prop_val := 1280, height_out_prop_val := 720\<rparr>)
        mode_1080p) [mode_720p] = Some mode_720p
   \<and> mode_set_sdi_timing (example_ep\<lparr>width_out_prop_val := 1280, height_out_prop_val := 720\<rparr>)
        [mode_720p] mode_1080p = mode_720p
   \<and> mode_set_sdi_timing (example_ep\<lparr>bridge := 0\<rparr>) [mode_720p] mode_1080p = mode_1080p
   \<and> find (sdi_mode_match example_ep mode_1080p) [] = None
   \<and> mode_set_sdi_timing example_ep [] mode_1080p = mode_1080p
   \<and> mode_2160p = mode_set_sdi_timing example_ep [] mode_2160p"
proof -
  let ?ep = "example_ep\<lparr>width_out_prop_val := 1280, height_out_prop_val := 720\<rparr>"
  let ?VM = "\<lparr>pixelclock = 594000000, hactive = 1920, hfront_porch = 24, hback_porch = 48,
         hsync_len = 16, vactive = 2160, vfront_porch = 8, vback_porch = 46, vsync_len = 8,
         vm_flags = 0\<rparr>"
  let ?EP = "example_ep\<lparr>video_mode := (video_mode example_ep)
             \<lparr>vdisplay := 2160, hdisplay := 3840, vrefresh := 67, flags := 0\<rparr>\<rparr>"
  let ?EV = "[Bridge_set_input 200 3840 2160 0, Bridge_set_output 200 3840 2160 0,
        Bridge_enable 200, Writel WREG_IRQ_MASK 6, Writel WREG_IRQ_ENABLE 1, Stc_reset,
        Writel WREG_SDI_MODE 5, Writel WREG_SDI_IS_FRAC 0, Stc_sig ?VM]"
  have b1: "bridge ?ep \<noteq> 0" by (simp add: example_ep_def)
  have b2: "bridge (example_ep\<lparr>bridge := 0\<rparr>) = 0" by simp
  have b3: "bridge example_ep \<noteq> 0" by (simp add: example_ep_def)
  have f: "find (sdi_mode_match ?ep mode_1080p) [mode_720p] = Some mode_720p"
    by (simp add: sdi_mode_match_def example_ep_def mode_720p_def mode_1080p_def)
  have n: "find (sdi_mode_match example_ep mode_1080p) [] = None" by simp
  have v: "mode_720p\<lparr>vrefresh := vrefresh mode_1080p\<rparr> = mode_720p"
    by (simp add: mode_720p_def mode_1080p_def)
  have r: "drm_vid_ep_encoder_atomic_mode_set [] example_ep mode_2160p zero_vm
      = Some (?EP, mode_2160p, ?VM, [(176, 176, False)], ?EV)"
    by (rule mode_2160p_run)
  have 1: "mode_set_sdi_timing ?ep [mode_720p] mode_1080p
      = mode_720p\<lparr>vrefresh := vrefresh mode_1080p\<rparr>"
    by (rule sdi_timing_override [of ?ep "[mode_720p]" mode_1080p mode_720p,
          THEN conjunct2, THEN conjunct2, THEN conjunct1, THEN mp, OF conjI [OF b1 f],
          THEN conjunct1])
  have e1: "mode_set_sdi_timing ?ep [mode_720p] mode_1080p = mode_720p"
    by (rule trans [OF 1 v])
  have 2: "mode_set_sdi_timing (example_ep\<lparr>bridge := 0\<rparr>) [mode_720p] mode_1080p = mode_1080p"
    by (rule sdi_timing_override [of "example_ep\<lparr>bridge := 0\<rparr>" "[mode_720p]" mode_1080p,
          THEN conjunct1, THEN mp, OF b2])
  have 3: "mode_set_sdi_timing example_ep [] mode_1080p = mode_1080p"
    by (rule sdi_timing_override [of example_ep "[]" mode_1080p,
          THEN conjunct2, THEN conjunct1, THEN mp, OF conjI [OF b3 n]])
  have 4: "mode_2160p = mode_set_sdi_timing example_ep [] mode_2160p"
    by (rule sdi_timing_override [of example_ep "[]" mode_2160p _ zero_vm ?EP mode_2160p
          ?VM "[(176, 176, False)]" ?EV,
          THEN conjunct2, THEN conjunct2, THEN conjunct2, THEN mp, OF r, THEN conjunct1])
  show ?thesis by (intro conjI) (fact b1 f e1 2 n 3 4)+
qed

text \<open>
  The claim has the table's values written whenever an entry matches, and the active
  size left unchanged. The 1280x720 entry matches the output size and the refresh rate
  of the adjusted mode 1920x1080 at 60 Hz. With the bridge, the active size of the
  adjusted mode changes from 1920x1080 to 1280x720. Without the bridge, nothing is
  written: the clock stays 148500 where the entry has 74250.
\<close>

theorem sdi_timing_override_counterexample:
  "sdi_mode_match (example_ep\<lparr>width_out_prop_val := 1280, height_out_prop_val := 720\<rparr>)
     mode_1080p mode_720p
   \<and> hdisplay mode_1080p = 1920 \<and> vdisplay mode_1080p = 1080
   \<and> hdisplay (mode_set_sdi_timing
        (example_ep\<lparr>width_out_prop_val := 1280, height_out_prop_val := 720\<rparr>)
        [mode_720p] mode_1080p) = 1280
   \<and> vdisplay (mode_set_sdi_timing
        (example_ep\<lparr>width_out_prop_val := 1280, height_out_prop_val := 720\<rparr>)
        [mode_720p] mode_1080p) = 720
   \<and> sdi_mode_match
        (example_ep\<lparr>width_out_prop_val := 1280, height_out_prop_val := 720, bridge := 0\<rparr>)
        mode_1080p mode_720p
   \<and> clock mode_720p = 74250
   \<and> clock (mode_set_sdi_timing
        (example_ep\<lparr>width_out_prop_val := 1280, height_out_prop_val := 720, bridge := 0\<rparr>)
        [mode_720p] mode_1080p) = 148500"
  by code_simp

subsection \<open>The 3840x2160 scenario\<close>

lemma int_div_numerals:
  "int_div 3840 2 = 1920" "int_div 48 2 = 24" "int_div 96 2 = 48" "int_div 32 2 = 16"
  by (simp_all add: int_div_def signed_divide_int_def)

text \<open>
  Claim C8. Let the adjusted mode be 3840 3888 3920 4016 / 2160 2168 2176 2222, not
  interlaced, with a clock of 594000 kHz, on a device set to 12G and to an output of
  3840x2160, where the table step leaves the mode as it is (no bridge, or no entry for
  this size and the mode's refresh rate). Then the mode-set returns; the \<^verbatim>\<open>vm\<close> handed to
  \<^verbatim>\<open>xlnx_stc_sig\<close> has horizontal active 1920, pixel clock 594000000 and vertical back porch
  46; the mode register is written with 5; and the loop makes one pass, with
  \<^verbatim>\<open>vtc_blank\<close> = \<^verbatim>\<open>sditx_blank\<close> = 176 and no increment of the front porch (24).
\<close>

theorem scenario_2160p_12g:
  assumes "hdisplay am0 = 3840" "hsync_start am0 = 3888" "hsync_end am0 = 3920"
    "htotal am0 = 4016" "vdisplay am0 = 2160" "vsync_start am0 = 2168"
    "vsync_end am0 = 2176" "vtotal am0 = 2222" "clock am0 = 594000"
    "flags am0 AND DRM_MODE_FLAG_INTERLACE = 0"
    and "sdi_mod_prop_val ep = SDI_MODE_12G" "width_out_prop_val ep = 3840"
    "height_out_prop_val ep = 2160"
    and "bridge ep = 0 \<or> find (sdi_mode_match ep am0) tbl = None"
  shows "\<exists>ep' vm.
     drm_vid_ep_encoder_atomic_mode_set tbl ep am0 vm0 =
       Some (ep', am0, vm, [(176, 176, False)],
         [Bridge_set_input (bridge ep) 3840 2160 (in_fmt_prop_val ep),
          Bridge_set_output (bridge ep) 3840 2160 (out_fmt_prop_val ep),
          Bridge_enable (bridge ep),
          Writel WREG_IRQ_MASK IRQ_EN_MASK, Writel WREG_IRQ_ENABLE 1, Stc_reset,
          Writel WREG_SDI_MODE 5, Writel WREG_SDI_IS_FRAC (of_bool (is_frac_prop_val ep)),
          Stc_sig vm])
     \<and> hactive vm = 1920 \<and> pixelclock vm = 594000000 \<and> vback_porch vm = 46
     \<and> hfront_porch vm = 24 \<and> hback_porch vm = 48 \<and> hsync_len vm = 16
     \<and> sditx_blank am0 = 176 \<and> vtc_blank vm = 176 \<and> sditx_blank am0 \<le> vtc_blank vm"
proof -
  let ?vm = "mode_set_videomode am0 vm0"
  have t: "mode_set_sdi_timing ep tbl am0 = am0"
    using assms(14) by (auto simp: mode_set_sdi_timing_def sdi_modes_scan_find)
  have h: "hactive ?vm = 1920" "hfront_porch ?vm = 24" "hback_porch ?vm = 48"
    "hsync_len ?vm = 16"
    using assms(1-4) by (simp_all add: mode_set_videomode_h int_div_numerals)
  have vb: "vback_porch ?vm = 46"
    using assms(7,8,10) by (simp add: mode_set_videomode_vback)
  have S: "sditx_blank am0 = 176" using assms(1-4) by (simp add: sditx_blank_def)
  have V: "vtc_blank ?vm = 176" using h by (simp add: vtc_blank_def)
  have l: "blank_loop am0 ?vm [] = Some (?vm, [(176, 176, False)])"
    using S V by (simp add: blank_loop_exit)
  let ?res = "?vm\<lparr>pixelclock := scast (clock am0 * 1000)\<rparr>"
  have pc: "pixelclock ?res = 594000000" using assms(9) by simp
  have "drm_vid_ep_encoder_atomic_mode_set tbl ep am0 vm0 =
       Some (ep\<lparr>video_mode := (video_mode ep)
               \<lparr>vdisplay := vdisplay am0, hdisplay := hdisplay am0,
                vrefresh := vrefresh am0, flags := flags am0\<rparr>\<rparr>,
         am0, ?res, [(176, 176, False)],
         [Bridge_set_input (bridge ep) 3840 2160 (in_fmt_prop_val ep),
          Bridge_set_output (bridge ep) 3840 2160 (out_fmt_prop_val ep),
          Bridge_enable (bridge ep),
          Writel WREG_IRQ_MASK IRQ_EN_MASK, Writel WREG_IRQ_ENABLE 1, Stc_reset,
          Writel WREG_SDI_MODE 5, Writel WREG_SDI_IS_FRAC (of_bool (is_frac_prop_val ep)),
          Stc_sig ?res])"
    using assms(1,5,11,12,13)
    by (simp add: drm_vid_ep_encoder_atomic_mode_set_def Let_def t l reg_defs
        drm_vid_ep_set_config_parameters_def set_sdi_mode_codes)
  moreover have "hactive ?res = 1920" "vback_porch ?res = 46" "hfront_porch ?res = 24"
    "hback_porch ?res = 48" "hsync_len ?res = 16" "vtc_blank ?res = 176"
    using h vb V by (simp_all add: vtc_blank_def)
  ultimately show ?thesis
    using pc S
    by (intro exI [of _ "ep\<lparr>video_mode := (video_mode ep)
               \<lparr>vdisplay := vdisplay am0, hdisplay := hdisplay am0,
                vrefresh := vrefresh am0, flags := flags am0\<rparr>\<rparr>"] exI [of _ ?res]) simp
qed

text \<open>The scenario on the example device, with and for an empty table.\<close>

theorem scenario_2160p_12g_witness:
  "(bridge example_ep = 0 \<or> find (sdi_mode_match example_ep mode_2160p) [] = None)
   \<and> (\<exists>ep' vm.
     drm_vid_ep_encoder_atomic_mode_set [] example_ep mode_2160p zero_vm =
       Some (ep', mode_2160p, vm, [(176, 176, False)],
         [Bridge_set_input 200 3840 2160 0, Bridge_set_output 200 3840 2160 0,
          Bridge_enable 200, Writel WREG_IRQ_MASK 6, Writel WREG_IRQ_ENABLE 1, Stc_reset,
          Writel WREG_SDI_MODE 5, Writel WREG_SDI_IS_FRAC 0, Stc_sig vm])
     \<and> hactive vm = 1920 \<and> pixelclock vm = 594000000 \<and> vback_porch vm = 46
     \<and> hfront_porch vm = 24 \<and> sditx_blank mode_2160p \<le> vtc_blank vm)"
proof -
  have m: "hdisplay mode_2160p = 3840" "hsync_start mode_2160p = 3888"
    "hsync_end mode_2160p = 3920" "htotal mode_2160p = 4016" "vdisplay mode_2160p = 2160"
    "vsync_start mode_2160p = 2168" "vsync_end mode_2160p = 2176" "vtotal mode_2160p = 2222"
    "clock mode_2160p = 594000" "flags mode_2160p AND DRM_MODE_FLAG_INTERLACE = 0"
    by (simp_all add: mode_2160p_def)
  have e: "sdi_mod_prop_val example_ep = SDI_MODE_12G" "width_out_prop_val example_ep = 3840"
    "height_out_prop_val example_ep = 2160"
    by (simp_all add: example_ep_def)
  have f: "bridge example_ep = 0 \<or> find (sdi_mode_match example_ep mode_2160p) [] = None"
    by simp
  have x: "bridge example_ep = 200" "in_fmt_prop_val example_ep = 0"
    "out_fmt_prop_val example_ep = 0" "is_frac_prop_val example_ep = False"
    by (simp_all add: example_ep_def)
  from scenario_2160p_12g [OF m e f, of zero_vm] obtain ep' vm where
    "drm_vid_ep_encoder_atomic_mode_set [] example_ep mode_2160p zero_vm =
       Some (ep', mode_2160p, vm, [(176, 176, False)],
         [Bridge_set_input 200 3840 2160 0, Bridge_set_output 200 3840 2160 0,
          Bridge_enable 200, Writel WREG_IRQ_MASK 6, Writel WREG_IRQ_ENABLE 1, Stc_reset,
          Writel WREG_SDI_MODE 5, Writel WREG_SDI_IS_FRAC 0, Stc_sig vm])
     \<and> hactive vm = 1920 \<and> pixelclock vm = 594000000 \<and> vback_porch vm = 46
     \<and> hfront_porch vm = 24 \<and> sditx_blank mode_2160p \<le> vtc_blank vm"
    unfolding x by auto
  then show ?thesis using f by blast
qed


end
